theory Spec2Isabelle
  imports Main
begin

section \<open>Auto-review-tool: the collector, the prompt builder, the review client and the handler\<close>

text \<open>
  A shallow embedding of \<^verbatim>\<open>src/app.py\<close>. A Python \<^verbatim>\<open>str\<close> is a \<^typ>\<open>string\<close>: one
  \<^typ>\<open>char\<close> stands for one character of the Python string, so \<^const>\<open>length\<close> is
  Python's \<^verbatim>\<open>len\<close> and \<^const>\<open>take\<close> is the slice \<^verbatim>\<open>s[:n]\<close>. The outside of the
  process (GitHub, the completion service, the environment variable) and the library
  functions whose results the program only inspects (\<^verbatim>\<open>urlparse\<close>, \<^verbatim>\<open>base64.b64decode\<close> and
  \<^verbatim>\<open>bytes.decode\<close>) are a value of the record \<open>world\<close> that every function takes: the
  theorems hold for every world. A world answers a request by its URL alone. Exceptions
  are values, and every function returns, next to its result, the outbound requests and
  log records it made, in order. The JSON bodies are read through the keys the program
  reads, each of the type GitHub's API and the completion service give it.
\<close>

subsection \<open>Strings\<close>

definition endswith :: "string \<Rightarrow> string \<Rightarrow> bool" where
  \<comment> \<open>\<^verbatim>\<open>s.endswith(suffix)\<close>\<close>
  "endswith s sfx = (length sfx \<le> length s \<and> drop (length s - length sfx) s = sfx)"

definition startswith :: "string \<Rightarrow> string \<Rightarrow> bool" where
  \<comment> \<open>\<^verbatim>\<open>s.startswith(prefix)\<close>\<close>
  "startswith s pfx = (take (length pfx) s = pfx)"

fun contains :: "string \<Rightarrow> string \<Rightarrow> bool" where
  \<comment> \<open>\<^verbatim>\<open>sub in s\<close>\<close>
  "contains [] sub = (sub = [])"
| "contains (c # cs) sub = (startswith (c # cs) sub \<or> contains cs sub)"

definition strip_slashes :: "string \<Rightarrow> string" where
  \<comment> \<open>\<^verbatim>\<open>s.strip('/')\<close>\<close>
  "strip_slashes s =
     rev (dropWhile (\<lambda>c. c = CHR ''/'') (rev (dropWhile (\<lambda>c. c = CHR ''/'') s)))"

fun split_slash :: "string \<Rightarrow> string list" where
  \<comment> \<open>\<^verbatim>\<open>s.split('/')\<close>: one more part than there are slashes\<close>
  "split_slash [] = [[]]"
| "split_slash (c # cs) =
     (if c = CHR ''/'' then [] # split_slash cs
      else (case split_slash cs of [] \<Rightarrow> [[c]] | p # ps \<Rightarrow> (c # p) # ps))"

fun str_nat :: "nat \<Rightarrow> string" where
  \<comment> \<open>\<^verbatim>\<open>str(n)\<close> of a status code\<close>
  "str_nat n =
     (if n < 10 then [''0123456789'' ! n]
      else str_nat (n div 10) @ [''0123456789'' ! (n mod 10)])"

declare str_nat.simps [simp del]

fun escape_char :: "char \<Rightarrow> string" where
  "escape_char c =
     (if c = CHR ''&'' then ''&amp;''
      else if c = CHR ''<'' then ''&lt;''
      else if c = CHR ''>'' then ''&gt;''
      else if c = CHR 0x22 then ''&quot;''
      else if c = CHR 0x27 then ''&#x27;''
      else [c])"

definition html_escape :: "string \<Rightarrow> string" where
  \<comment> \<open>\<^verbatim>\<open>html.escape(s)\<close>, with \<^verbatim>\<open>quote=True\<close>\<close>
  "html_escape s = concat (map escape_char s)"

subsection \<open>Exceptions, events, the world\<close>

datatype exn =
    ValueError string
  | HTTPStatusError string nat string
  | Exception string

text \<open>
  \<open>ValueError m\<close> is a \<^verbatim>\<open>ValueError\<close> (or a subclass) with \<^verbatim>\<open>str(e) = m\<close>;
  \<open>HTTPStatusError m status text\<close> is an \<^verbatim>\<open>httpx.HTTPStatusError\<close> with its response's
  status code and text; \<open>Exception m\<close> is an exception of any other class. These are the
  classes the handlers of the program tell apart.
\<close>

fun str_exn :: "exn \<Rightarrow> string" where
  "str_exn (ValueError m) = m"
| "str_exn (HTTPStatusError m status_code body) = m"
| "str_exn (Exception m) = m"

datatype level = INFO | WARNING | ERROR

datatype event =
    GET string
  | POST string string
  | LOG level string

text \<open>
  \<open>GET u\<close> is a request of the GitHub client to the URL \<open>u\<close>, \<open>POST u prompt\<close> the
  request to the completion service with the user message \<open>prompt\<close>, \<open>LOG lv m\<close> a record
  of the logger.
\<close>

record tree_item =
  path :: string
  type :: string
  url :: string

record github_json =
  default_branch :: "string option"
  tree :: "tree_item list option"
  content :: "string option"
  encoding :: "string option"

text \<open>
  A JSON object of GitHub's API, by the four keys the program reads; \<open>None\<close> is a key
  that is absent (the program reads each with \<^verbatim>\<open>.get\<close> and a default). The entries of a
  tree carry the three keys of the specification's RepositoryTree.
\<close>

datatype message_json = MessageJson "string option"

datatype choice_json = ChoiceJson "message_json option"

record completion_json =
  choices :: "choice_json list option"

text \<open>
  The envelope of the completion service: \<open>choices\<close> is \<open>None\<close> when the key is absent or
  null; a choice holds its \<^verbatim>\<open>message\<close> (\<open>None\<close>: absent, null or an empty object), a message
  its \<^verbatim>\<open>content\<close> (\<open>None\<close>: absent or null).
\<close>

record 'a response =
  status_code :: nat
  response_text :: string
  json :: "exn + 'a"

text \<open>\<open>json r\<close> is what \<^verbatim>\<open>r.json()\<close> returns or raises.\<close>

record parse_result =
  netloc :: string
  url_path :: string

datatype decoded =
    Decoded string
  | UnicodeDecodeError
  | DecodeError string

text \<open>
  What \<^verbatim>\<open>base64.b64decode(content).decode('utf-8')\<close> does: it returns a text, raises
  \<^verbatim>\<open>UnicodeDecodeError\<close>, or raises another exception \<open>e\<close> (\<open>DecodeError (str e)\<close>).
\<close>

record world =
  urlparse :: "string \<Rightarrow> exn + parse_result"
  http_get :: "string \<Rightarrow> exn + github_json response"
  b64decode_utf8 :: "string \<Rightarrow> decoded"
  getenv_MISTRAL_API_KEY :: "string option"
  http_post :: "string \<Rightarrow> string \<Rightarrow> string \<Rightarrow> exn + completion_json response"

text \<open>
  \<open>http_get w u\<close> is the answer to \<^verbatim>\<open>client.get(u)\<close> (\<open>Inl e\<close>: the call raises \<open>e\<close>);
  \<open>http_post w u key prompt\<close> the answer to the POST to \<open>u\<close> with the bearer token \<open>key\<close> and
  the user message \<open>prompt\<close>.
\<close>

subsection \<open>The repository collector\<close>

definition max_code_length :: nat where
  "max_code_length = 20000"

definition max_files :: nat where
  "max_files = 100"

definition allowed_extensions :: "string list" where
  "allowed_extensions =
     [''.py'', ''.js'', ''.java'', ''.cpp'', ''.c'', ''.cs'', ''.rb'', ''.go'', ''.php'',
      ''.html'', ''.css'', ''.swift'', ''.kt'']"

definition code_truncation_marker :: string where
  "code_truncation_marker = ''\<newline>\<newline>// Code truncated due to size limitations.''"

record collect_state =
  code :: string
  file_list :: string
  file_count :: nat
  trace :: "event list"

datatype 's flow = Next 's | Break 's

text \<open>How one pass of the loop body ends: \<open>Break\<close> leaves the loop, \<open>Next\<close> goes on with the
  next entry (\<^verbatim>\<open>continue\<close>, or the end of the body).\<close>

definition log :: "level \<Rightarrow> string \<Rightarrow> collect_state \<Rightarrow> collect_state" where
  "log lv msg st = st\<lparr>trace := trace st @ [LOG lv msg]\<rparr>"

definition file_header :: "string \<Rightarrow> string" where
  \<comment> \<open>\<^verbatim>\<open>f'\n\n// File: {path}\n'\<close>, the text before \<^verbatim>\<open>{file_content}\<close>\<close>
  "file_header p = ''\<newline>\<newline>// File: '' @ p @ ''\<newline>''"

definition append_file :: "string \<Rightarrow> string \<Rightarrow> collect_state \<Rightarrow> collect_state flow" where
  \<comment> \<open>lines 111 to 116\<close>
  "append_file p file_content st =
     (let st = st\<lparr>code := code st @ file_header p @ file_content,
                    file_count := file_count st + 1\<rparr>
      in if length (code st) > max_code_length
         then Break (st\<lparr>code := take max_code_length (code st) @ code_truncation_marker\<rparr>)
         else Next st)"

definition read_blob :: "world \<Rightarrow> tree_item \<Rightarrow> collect_state \<Rightarrow> collect_state flow" where
  \<comment> \<open>lines 97 to 122: the \<^verbatim>\<open>try\<close> block and its handler\<close>
  "read_blob w item st0 =
     (let st = log INFO (''Processing file: '' @ path item) st0;
          blob_url = url item;
          st = st\<lparr>trace := trace st @ [GET blob_url]\<rparr>
      in case http_get w blob_url of
           Inl e \<Rightarrow> Next (log ERROR (''Error reading file '' @ path item @ '': '' @ str_exn e) st)
         | Inr blob_response \<Rightarrow>
             if status_code blob_response = 200 then
               (case json blob_response of
                  Inl e \<Rightarrow>
                    Next (log ERROR (''Error reading file '' @ path item @ '': '' @ str_exn e) st)
                | Inr blob_data \<Rightarrow>
                    let file_content64 = (case content blob_data of None \<Rightarrow> [] | Some c \<Rightarrow> c);
                        enc = (case encoding blob_data of None \<Rightarrow> [] | Some e \<Rightarrow> e)
                    in if enc = ''base64'' then
                         (case b64decode_utf8 w file_content64 of
                            UnicodeDecodeError \<Rightarrow>
                              Next (log WARNING
                                (''File '' @ path item @ '' cannot be decoded in UTF-8, skipping.'') st)
                          | DecodeError m \<Rightarrow>
                              Next (log ERROR
                                (''Error reading file '' @ path item @ '': '' @ m) st)
                          | Decoded file_content \<Rightarrow> append_file (path item) file_content st)
                       else
                         Next (log WARNING
                           (''Unknown encoding format for file '' @ path item) st))
             else
               Next (log ERROR
                 (''Error fetching file '' @ path item @ '': '' @
                  str_nat (status_code blob_response)) st))"

definition loop_body :: "world \<Rightarrow> tree_item \<Rightarrow> collect_state \<Rightarrow> collect_state flow" where
  \<comment> \<open>lines 91 to 122, one entry of the tree\<close>
  "loop_body w item st0 =
     (let st = st0\<lparr>file_list := file_list st0 @ path item @ ''\<newline>''\<rparr>
      in if type item = ''blob'' then
           if \<not> list_ex (endswith (path item)) allowed_extensions then
             Next (log INFO (''Skipping file with unsuitable extension: '' @ path item) st)
           else read_blob w item st
         else Next st)"

definition caps_reached :: "collect_state \<Rightarrow> bool" where
  \<comment> \<open>line 89\<close>
  "caps_reached st = (file_count st \<ge> max_files \<or> length (code st) \<ge> max_code_length)"

fun for_loop :: "world \<Rightarrow> tree_item list \<Rightarrow> collect_state \<Rightarrow> collect_state" where
  \<comment> \<open>lines 88 to 122\<close>
  "for_loop w [] st = st"
| "for_loop w (item # rest) st =
     (if caps_reached st then st
      else (case loop_body w item st of
              Break st' \<Rightarrow> st'
            | Next st' \<Rightarrow> for_loop w rest st'))"

definition initial_state :: "event list \<Rightarrow> collect_state" where
  \<comment> \<open>lines 81 to 86; the events are those made before the loop\<close>
  "initial_state evs =
     \<lparr>code = [], file_list = ''\<newline>All repository files:\<newline>'', file_count = 0, trace = evs\<rparr>"

definition parse_repo_url :: "world \<Rightarrow> string \<Rightarrow> exn + string \<times> string" where
  \<comment> \<open>lines 52 to 60: the owner and the name of the repository\<close>
  "parse_repo_url w repo_url =
     (case urlparse w repo_url of
        Inl e \<Rightarrow> Inl e
      | Inr parsed_url \<Rightarrow>
          if netloc parsed_url \<noteq> ''github.com''
          then Inl (ValueError ''Invalid domain in GitHub repository URL.'')
          else
            let path_parts = split_slash (strip_slashes (url_path parsed_url))
            in if length path_parts < 2
               then Inl (ValueError ''Invalid path in GitHub repository URL.'')
               else Inr (path_parts ! 0, path_parts ! 1))"

definition repo_api_url :: "string \<Rightarrow> string \<Rightarrow> string" where
  "repo_api_url owner repo_name = ''https://api.github.com/repos/'' @ owner @ ''/'' @ repo_name"

definition tree_url :: "string \<Rightarrow> string \<Rightarrow> string \<Rightarrow> string" where
  "tree_url owner repo_name branch =
     ''https://api.github.com/repos/'' @ owner @ ''/'' @ repo_name @ ''/git/trees/'' @ branch @
     ''?recursive=1''"

definition fetch_tree ::
  "world \<Rightarrow> string \<Rightarrow> exn \<times> event list + tree_item list \<times> event list" where
  \<comment> \<open>lines 52 to 80: the entries of the tree, or the exception raised; with the events made\<close>
  "fetch_tree w repo_url =
     (case parse_repo_url w repo_url of
        Inl e \<Rightarrow> Inl (e, [])
      | Inr (owner, repo_name) \<Rightarrow>
          (let evs = [GET (repo_api_url owner repo_name)]
           in case http_get w (repo_api_url owner repo_name) of
               Inl e \<Rightarrow> Inl (e, evs)
             | Inr response1 \<Rightarrow>
                 if status_code response1 \<noteq> 200 then
                   Inl (ValueError
                          ''Failed to access GitHub repository. Check the URL and access rights.'',
                        evs @ [LOG ERROR (''Error fetching repository data: '' @
                                          str_nat (status_code response1))])
                 else
                   (case json response1 of
                      Inl e \<Rightarrow> Inl (e, evs)
                    | Inr repo_data \<Rightarrow>
                        (let branch = (case default_branch repo_data of
                                         None \<Rightarrow> ''main'' | Some b \<Rightarrow> b);
                             evs = evs @ [GET (tree_url owner repo_name branch)]
                         in case http_get w (tree_url owner repo_name branch) of
                             Inl e \<Rightarrow> Inl (e, evs)
                           | Inr response2 \<Rightarrow>
                               if status_code response2 \<noteq> 200 then
                                 Inl (ValueError
                                        ''Failed to retrieve GitHub repository content.'',
                                      evs @ [LOG ERROR (''Error fetching repository tree: '' @
                                                        str_nat (status_code response2))])
                               else
                                 (case json response2 of
                                    Inl e \<Rightarrow> Inl (e, evs)
                                  | Inr tree_data \<Rightarrow>
                                      Inr (case tree tree_data of
                                             None \<Rightarrow> [] | Some t \<Rightarrow> t,
                                           evs))))))"

definition collect_code_from_github_repo ::
  "world \<Rightarrow> string \<Rightarrow> (exn + string) \<times> event list" where
  \<comment> \<open>lines 51 to 124: \<open>fetch_tree\<close>, the loop from the initial state, and lines 123 and 124\<close>
  "collect_code_from_github_repo w repo_url =
     (case fetch_tree w repo_url of
        Inl (e, evs) \<Rightarrow> (Inl e, evs)
      | Inr (entries, evs) \<Rightarrow>
          (let st = for_loop w entries (initial_state evs)
           in (Inr (code st @ file_list st), trace st)))"

subsection \<open>The prompt builder\<close>

record ReviewRequest =
  assignment_description :: string
  github_url_repo :: string
  candidate_level :: string

definition max_prompt_length :: nat where
  "max_prompt_length = 20000"

definition prompt_truncation_marker :: string where
  "prompt_truncation_marker = ''\<newline>\<newline>// Prompt truncated due to size limitations.''"

definition prompt_template :: "string \<Rightarrow> string \<Rightarrow> string \<Rightarrow> string" where
  \<comment> \<open>lines 217 to 225, the f-string\<close>
  "prompt_template level description safe_project_code =
     ''\<newline>        Please analyze the following project, paying particular attention to the fact that the candidate is applying for the '' @
     level @
     '' level, and provide feedback according to the response structure.\<newline>\<newline>        Short project description: '' @
     description @
     ''\<newline>\<newline>        Project code:\<newline>        '' @
     safe_project_code @
     ''\<newline>        Please provide your feedback considering the '' @
     level @
     '' vacancy level.\<newline>        ''"

definition truncate_prompt :: "string \<Rightarrow> string" where
  \<comment> \<open>lines 227 to 229\<close>
  "truncate_prompt prompt =
     (if length prompt > max_prompt_length
      then take max_prompt_length prompt @ prompt_truncation_marker
      else prompt)"

definition build_prompt :: "ReviewRequest \<Rightarrow> string \<Rightarrow> string" where
  \<comment> \<open>lines 215 to 229\<close>
  "build_prompt review_request project_code =
     truncate_prompt
       (prompt_template (candidate_level review_request)
          (assignment_description review_request) (html_escape project_code))"

subsection \<open>The review client\<close>

definition api_url :: string where
  "api_url = ''https://api.mistral.ai/v1/chat/completions''"

definition key_error_str :: "string \<Rightarrow> string" where
  \<comment> \<open>\<^verbatim>\<open>str(KeyError(m))\<close> is \<^verbatim>\<open>repr(m)\<close>: for the three messages of the program, \<open>m\<close> in single quotes\<close>
  "key_error_str m = [CHR 0x27] @ m @ [CHR 0x27]"

definition extract_review :: "completion_json \<Rightarrow> string + string" where
  \<comment> \<open>lines 185 to 193; \<open>Inl m\<close> is \<^verbatim>\<open>raise KeyError(m)\<close>\<close>
  "extract_review response_json =
     (case choices response_json of
        None \<Rightarrow> Inl ''Field \"choices\" is missing or has an incorrect format.''
      | Some [] \<Rightarrow> Inl ''Field \"choices\" is missing or has an incorrect format.''
      | Some (ChoiceJson message # _) \<Rightarrow>
          (case message of
             None \<Rightarrow> Inl ''Field \"message\" is missing or has an incorrect format.''
           | Some (MessageJson review_text) \<Rightarrow>
               (case review_text of
                  None \<Rightarrow> Inl ''Field \"content\" is missing.''
                | Some t \<Rightarrow> if t = [] then Inl ''Field \"content\" is missing.'' else Inr t)))"

definition raise_for_status :: "'a response \<Rightarrow> exn option" where
  \<comment> \<open>\<^verbatim>\<open>response.raise_for_status()\<close> of httpx: raises unless the status is 2xx. The message
      of the library's exception, which the program never reads, is left empty.\<close>
  "raise_for_status r =
     (if 200 \<le> status_code r \<and> status_code r \<le> 299 then None
      else Some (HTTPStatusError [] (status_code r) (response_text r)))"

definition mistral_handlers :: "exn \<Rightarrow> event list \<Rightarrow> (exn + string) \<times> event list" where
  \<comment> \<open>lines 198 to 203: the two handlers of the outer \<^verbatim>\<open>try\<close>\<close>
  "mistral_handlers e evs =
     (case e of
        HTTPStatusError m status body \<Rightarrow>
          (Inl (Exception ''HTTP error when accessing Mistral AI API.''),
           evs @ [LOG ERROR (''HTTP error when accessing Mistral AI API: '' @ str_nat status @
                             '' - '' @ body)])
      | _ \<Rightarrow>
          (Inl (Exception (''Invalid response format from Mistral AI API: '' @ str_exn e)),
           evs @ [LOG ERROR (''Error when accessing Mistral AI API: '' @ str_exn e)]))"

definition get_mistral_review :: "world \<Rightarrow> string \<Rightarrow> (exn + string) \<times> event list" where
  "get_mistral_review w prompt =
     (case getenv_MISTRAL_API_KEY w of
        None \<Rightarrow> (Inl (Exception ''Mistral AI API key not found in environment variables.''), [])
      | Some api_key \<Rightarrow>
          if api_key = [] then
            (Inl (Exception ''Mistral AI API key not found in environment variables.''), [])
          else
            (let evs = [POST api_url prompt]
             in case http_post w api_url api_key prompt of
                 Inl e \<Rightarrow> mistral_handlers e evs
               | Inr response \<Rightarrow>
                   (case raise_for_status response of
                      Some e \<Rightarrow> mistral_handlers e evs
                    | None \<Rightarrow>
                        (case json response of
                           Inl e \<Rightarrow> mistral_handlers e evs
                         | Inr response_json \<Rightarrow>
                             (case extract_review response_json of
                                Inl m \<Rightarrow>
                                  let msg = ''Invalid response format from Mistral AI API: '' @
                                            key_error_str m
                                  in mistral_handlers (Exception msg) (evs @ [LOG ERROR msg])
                              | Inr review_text \<Rightarrow> (Inr review_text, evs))))))"

subsection \<open>The request handler\<close>

datatype http_result =
    Review string
  | HTTPException nat string

text \<open>
  \<open>Review t\<close> is the answer 200 with the body \<^verbatim>\<open>{'review': t}\<close>; \<open>HTTPException status detail\<close>
  the answer FastAPI makes of the exception: that status, and the body \<^verbatim>\<open>{'detail': detail}\<close>.
\<close>

definition review_handlers :: "exn \<Rightarrow> event list \<Rightarrow> http_result \<times> event list" where
  \<comment> \<open>lines 235 to 245\<close>
  "review_handlers e evs =
     (case e of
        ValueError m \<Rightarrow> (HTTPException 400 m, evs)
      | HTTPStatusError m status body \<Rightarrow>
          (HTTPException 400
             ''Failed to access GitHub repository. Check the URL and access rights.'',
           evs @ [LOG ERROR (''Error accessing GitHub: '' @ m)])
      | Exception m \<Rightarrow>
          (if contains m ''HTTP error when accessing Mistral AI API''
           then HTTPException 500 ''HTTP error when accessing Mistral AI API.''
           else HTTPException 500 ''An internal server error occurred. Please try again later.'',
           evs @ [LOG ERROR (''Internal server error: '' @ m)]))"

definition review :: "world \<Rightarrow> ReviewRequest \<Rightarrow> http_result \<times> event list" where
  \<comment> \<open>lines 206 to 245, for a request that passed the validators\<close>
  "review w review_request =
     (case collect_code_from_github_repo w (github_url_repo review_request) of
        (Inl e, evs) \<Rightarrow> review_handlers e evs
      | (Inr project_code, evs) \<Rightarrow>
          (let prompt = build_prompt review_request project_code;
               evs = evs @ [LOG INFO ''Sending request to Mistral AI for review.'']
           in case get_mistral_review w prompt of
                (Inl e, evs') \<Rightarrow> review_handlers e (evs @ evs')
              | (Inr review_text, evs') \<Rightarrow> (Review review_text, evs @ evs')))"

definition completion_requests :: "event list \<Rightarrow> event list" where
  \<comment> \<open>the requests sent to the completion service\<close>
  "completion_requests evs = filter (\<lambda>ev. case ev of POST u p \<Rightarrow> True | _ \<Rightarrow> False) evs"

subsection \<open>Observations of a run\<close>

text \<open>
  The definitions of this subsection are not functions of the program: they name what the
  statements below say about a run of the loop.
\<close>

fun state_of :: "'s flow \<Rightarrow> 's" where
  "state_of (Next s) = s"
| "state_of (Break s) = s"

definition manifest_line :: "tree_item \<Rightarrow> string" where
  \<comment> \<open>line 91: \<^verbatim>\<open>f"{item['path']}\n"\<close>\<close>
  "manifest_line item = path item @ ''\<newline>''"

definition eligible :: "tree_item \<Rightarrow> bool" where
  \<comment> \<open>the tests of lines 92 and 94: a blob whose path ends with an allowed extension\<close>
  "eligible item = (type item = ''blob'' \<and> list_ex (endswith (path item)) allowed_extensions)"

definition included_text :: "world \<Rightarrow> tree_item \<Rightarrow> string option" where
  \<comment> \<open>the text the program decodes for an entry, when it reaches line 111 for it\<close>
  "included_text w item =
     (if eligible item then
        (case http_get w (url item) of
           Inl e \<Rightarrow> None
         | Inr blob_response \<Rightarrow>
             if status_code blob_response = 200 then
               (case json blob_response of
                  Inl e \<Rightarrow> None
                | Inr blob_data \<Rightarrow>
                    if encoding blob_data = Some ''base64'' then
                      (case b64decode_utf8 w
                              (case content blob_data of None \<Rightarrow> [] | Some c \<Rightarrow> c) of
                         Decoded file_content \<Rightarrow> Some file_content
                       | _ \<Rightarrow> None)
                    else None)
             else None)
      else None)"

definition file_section :: "world \<Rightarrow> tree_item \<Rightarrow> string" where
  \<comment> \<open>what line 111 appends for an entry; nothing for an entry that is not included\<close>
  "file_section w item =
     (case included_text w item of None \<Rightarrow> [] | Some t \<Rightarrow> file_header (path item) @ t)"

definition truncate_code :: "string \<Rightarrow> string" where
  \<comment> \<open>lines 113 to 115, as a function of the text\<close>
  "truncate_code full =
     (if length full > max_code_length then take max_code_length full @ code_truncation_marker
      else full)"

fun entries_reached :: "world \<Rightarrow> tree_item list \<Rightarrow> collect_state \<Rightarrow> nat" where
  \<comment> \<open>the number of entries for which the loop body ran\<close>
  "entries_reached w [] st = 0"
| "entries_reached w (item # rest) st =
     (if caps_reached st then 0
      else (case loop_body w item st of
              Break st' \<Rightarrow> 1
            | Next st' \<Rightarrow> 1 + entries_reached w rest st'))"

definition fetched_urls :: "event list \<Rightarrow> string list" where
  \<comment> \<open>the URLs requested from GitHub, in order\<close>
  "fetched_urls evs = concat (map (\<lambda>ev. case ev of GET u \<Rightarrow> [u] | _ \<Rightarrow> []) evs)"

subsection \<open>Scenarios\<close>

text \<open>
  Concrete worlds, after the mocks of \<^verbatim>\<open>src/tests.py\<close>: the repository
  \<^verbatim>\<open>https://github.com/testuser/testrepo\<close> with a given answer to the metadata request, a
  given tree on the branch \<^verbatim>\<open>main\<close>, given answers to the blob requests, a decoder (a table
  of the decodings the scenario needs), the value of the environment variable and the
  answer of the completion service.
\<close>

definition ok_response :: "'a \<Rightarrow> 'a response" where
  "ok_response body = \<lparr>status_code = 200, response_text = [], json = Inr body\<rparr>"

definition error_response :: "nat \<Rightarrow> string \<Rightarrow> 'a response" where
  \<comment> \<open>a response whose body is not JSON\<close>
  "error_response status body =
     \<lparr>status_code = status, response_text = body,
      json = Inl (ValueError ''Expecting value: line 1 column 1 (char 0)'')\<rparr>"

definition no_keys :: github_json where
  "no_keys = \<lparr>default_branch = None, tree = None, content = None, encoding = None\<rparr>"

definition test_repo_url :: string where
  "test_repo_url = ''https://github.com/testuser/testrepo''"

definition test_review_text :: string where
  "test_review_text = ''This is a test review from Mistral AI.''"

definition completion_ok :: "exn + completion_json response" where
  "completion_ok =
     Inr (ok_response
            \<lparr>choices = Some [ChoiceJson (Some (MessageJson (Some test_review_text)))]\<rparr>)"

definition scenario ::
  "(exn + github_json response) \<Rightarrow> tree_item list \<Rightarrow>
   (string \<Rightarrow> exn + github_json response) \<Rightarrow> (string \<Rightarrow> decoded) \<Rightarrow> string option \<Rightarrow>
   (exn + completion_json response) \<Rightarrow> world" where
  "scenario metadata entries blobs decoder api_key completion =
     \<lparr>urlparse = (\<lambda>u. if u = test_repo_url
                        then Inr \<lparr>netloc = ''github.com'', url_path = ''/testuser/testrepo''\<rparr>
                        else Inr \<lparr>netloc = [], url_path = u\<rparr>),
      http_get = (\<lambda>u. if u = ''https://api.github.com/repos/testuser/testrepo'' then metadata
                        else if u = ''https://api.github.com/repos/testuser/testrepo/git/trees/main?recursive=1''
                        then Inr (ok_response (no_keys\<lparr>tree := Some entries\<rparr>))
                        else blobs u),
      b64decode_utf8 = decoder,
      getenv_MISTRAL_API_KEY = api_key,
      http_post = (\<lambda>u k p. completion)\<rparr>"

definition metadata_ok :: "exn + github_json response" where
  "metadata_ok = Inr (ok_response (no_keys\<lparr>default_branch := Some ''main''\<rparr>))"

definition evs0 :: "event list" where
  \<comment> \<open>the two requests made before the loop\<close>
  "evs0 = [GET ''https://api.github.com/repos/testuser/testrepo'',
           GET ''https://api.github.com/repos/testuser/testrepo/git/trees/main?recursive=1'']"

text \<open>
  A repository of two entries: \<^verbatim>\<open>big.py\<close>, whose base64 content (6667 times \<^verbatim>\<open>YWFh\<close>)
  decodes to 20001 letters \<^verbatim>\<open>a\<close>, and \<^verbatim>\<open>notes.md\<close>.
\<close>

definition big_text :: string where
  "big_text = replicate 20001 CHR ''a''"

definition big_content :: string where
  "big_content = concat (replicate 6667 ''YWFh'')"

definition big_py :: tree_item where
  "big_py = \<lparr>path = ''big.py'', type = ''blob'', url = ''https://api.github.com/repos/testuser/testrepo/git/blobs/big''\<rparr>"

definition notes_md :: tree_item where
  "notes_md = \<lparr>path = ''notes.md'', type = ''blob'', url = ''https://api.github.com/repos/testuser/testrepo/git/blobs/notes''\<rparr>"

definition big_blobs :: "string \<Rightarrow> exn + github_json response" where
  "big_blobs u =
     (if u = ''https://api.github.com/repos/testuser/testrepo/git/blobs/big''
      then Inr (ok_response (no_keys\<lparr>content := Some big_content, encoding := Some ''base64''\<rparr>))
      else Inl (Exception ''not mocked''))"

definition big_decoder :: "string \<Rightarrow> decoded" where
  "big_decoder c =
     (if c = big_content then Decoded big_text else DecodeError ''Incorrect padding'')"

definition big_world :: world where
  "big_world =
     scenario metadata_ok [big_py, notes_md] big_blobs big_decoder (Some ''secret'') completion_ok"

text \<open>A request whose description has 20000 characters.\<close>

definition long_description :: string where
  "long_description = replicate 20000 CHR ''x''"

definition long_request :: ReviewRequest where
  "long_request = \<lparr>assignment_description = long_description,
     github_url_repo = test_repo_url, candidate_level = ''Junior''\<rparr>"

text \<open>
  The repository of \<^verbatim>\<open>test_review_success\<close>: one entry \<^verbatim>\<open>main.py\<close>, whose content decodes to
  \<^verbatim>\<open>print('Hello, World!')\<close>. The blob server also answers 404 for the blob \<^verbatim>\<open>gone\<close>, and for
  the blob \<^verbatim>\<open>empty\<close> a JSON object with the encoding base64 and no content; the decoder maps
  the empty string to the empty text, as Python's does.
\<close>

definition main_py :: tree_item where
  "main_py = \<lparr>path = ''main.py'', type = ''blob'',
               url = ''https://api.github.com/repos/testuser/testrepo/git/blobs/sha1''\<rparr>"

definition hello_text :: string where
  "hello_text = ''print('' @ [CHR 0x27] @ ''Hello, World!'' @ [CHR 0x27] @ '')''"

definition test_blobs :: "string \<Rightarrow> exn + github_json response" where
  "test_blobs u =
     (if u = ''https://api.github.com/repos/testuser/testrepo/git/blobs/sha1''
      then Inr (ok_response (no_keys\<lparr>content := Some ''cHJpbnQoJ0hlbGxvLCBXb3JsZCEnKQ=='',
                                      encoding := Some ''base64''\<rparr>))
      else if u = ''https://api.github.com/repos/testuser/testrepo/git/blobs/gone''
      then Inr (error_response 404 ''Not Found'')
      else if u = ''https://api.github.com/repos/testuser/testrepo/git/blobs/empty''
      then Inr (ok_response (no_keys\<lparr>encoding := Some ''base64''\<rparr>))
      else Inl (Exception ''not mocked''))"

definition test_decoder :: "string \<Rightarrow> decoded" where
  "test_decoder c =
     (if c = ''cHJpbnQoJ0hlbGxvLCBXb3JsZCEnKQ=='' then Decoded hello_text
      else if c = [] then Decoded []
      else DecodeError ''Incorrect padding'')"

definition test_request :: ReviewRequest where
  "test_request = \<lparr>assignment_description = ''Test project description'',
     github_url_repo = test_repo_url, candidate_level = ''Middle''\<rparr>"

definition success_world :: world where
  "success_world =
     scenario metadata_ok [main_py] test_blobs test_decoder (Some ''secret'') completion_ok"

definition success_corpus :: string where
  \<comment> \<open>what the collector returns in \<open>success_world\<close>\<close>
  "success_corpus =
     file_header ''main.py'' @ hello_text @ ''\<newline>All repository files:\<newline>main.py\<newline>''"

text \<open>
  The scenarios of \<^verbatim>\<open>test_review_github_api_error\<close> (the metadata request answers 404) and
  \<^verbatim>\<open>test_review_mistral_api_error\<close> (the completion service answers 500), a process without
  the environment variable, and the test repository with a given tree.
\<close>

definition not_found_world :: world where
  "not_found_world =
     scenario (Inr (error_response 404 [])) [] test_blobs test_decoder (Some ''secret'') completion_ok"

definition mistral_500_world :: world where
  "mistral_500_world =
     scenario metadata_ok [main_py] test_blobs test_decoder (Some ''secret'')
       (Inr (error_response 500 ''Internal Server Error''))"

definition no_key_world :: world where
  "no_key_world =
     scenario metadata_ok [main_py] test_blobs test_decoder None completion_ok"

definition gone_py :: tree_item where
  "gone_py = \<lparr>path = ''gone.py'', type = ''blob'', url = ''https://api.github.com/repos/testuser/testrepo/git/blobs/gone''\<rparr>"

definition empty_py :: tree_item where
  "empty_py = \<lparr>path = ''empty.py'', type = ''blob'', url = ''https://api.github.com/repos/testuser/testrepo/git/blobs/empty''\<rparr>"

definition src_dir :: tree_item where
  "src_dir = \<lparr>path = ''src'', type = ''tree'', url = ''https://api.github.com/repos/testuser/testrepo/git/trees/src''\<rparr>"

definition test_world :: "tree_item list \<Rightarrow> world" where
  "test_world entries =
     scenario metadata_ok entries test_blobs test_decoder (Some ''secret'') completion_ok"


section \<open>Lemmas\<close>

subsection \<open>Strings and lengths\<close>

lemma endswith_iff: "endswith s sfx \<longleftrightarrow> (\<exists>p. s = p @ sfx)"
  unfolding endswith_def
proof
  assume a: "length sfx \<le> length s \<and> drop (length s - length sfx) s = sfx"
  have "s = take (length s - length sfx) s @ drop (length s - length sfx) s" by simp
  with a show "\<exists>p. s = p @ sfx" by metis
next
  assume "\<exists>p. s = p @ sfx"
  then show "length sfx \<le> length s \<and> drop (length s - length sfx) s = sfx" by auto
qed

lemma marker_lengths:
  "length code_truncation_marker = 44" "length prompt_truncation_marker = 46"
  by (simp_all add: code_truncation_marker_def prompt_truncation_marker_def)

lemma length_prompt_template:
  "length (prompt_template lv d c) = 338 + 2 * length lv + length d + length c"
  by (simp add: prompt_template_def)

lemma truncate_code_small: "length s \<le> max_code_length \<Longrightarrow> truncate_code s = s"
  by (simp add: truncate_code_def)

lemma length_truncate_code:
  "length (truncate_code s) \<le> max_code_length + length code_truncation_marker"
  by (simp add: truncate_code_def)

lemma length_truncate_prompt:
  "length (truncate_prompt s) \<le> max_prompt_length + length prompt_truncation_marker"
  by (simp add: truncate_prompt_def)

lemma fetched_urls_append [simp]: "fetched_urls (xs @ ys) = fetched_urls xs @ fetched_urls ys"
  by (simp add: fetched_urls_def)

lemma completion_requests_append [simp]:
  "completion_requests (xs @ ys) = completion_requests xs @ completion_requests ys"
  by (simp add: completion_requests_def)

lemma initial_state_sel [simp]:
  "code (initial_state evs) = []" "file_count (initial_state evs) = 0"
  "file_list (initial_state evs) = ''\<newline>All repository files:\<newline>''"
  "trace (initial_state evs) = evs"
  by (simp_all add: initial_state_def)

subsection \<open>One pass of the loop body\<close>

lemma loop_body_cases:
  obtains (Break) st' where "loop_body w item st = Break st'"
      "state_of (loop_body w item st) = st'"
  | (Next) st' where "loop_body w item st = Next st'" "state_of (loop_body w item st) = st'"
  by (cases "loop_body w item st") auto

lemma loop_body_file_list:
  "file_list (state_of (loop_body w item st)) = file_list st @ manifest_line item"
  by (simp add: loop_body_def read_blob_def append_file_def log_def Let_def manifest_line_def
      split: sum.splits decoded.splits option.splits)

lemma loop_body_code:
  "code (state_of (loop_body w item st)) =
     (case included_text w item of
        None \<Rightarrow> code st
      | Some t \<Rightarrow> truncate_code (code st @ file_header (path item) @ t))"
  by (simp add: loop_body_def read_blob_def append_file_def log_def Let_def included_text_def
      eligible_def truncate_code_def
      split: sum.splits decoded.splits option.splits)

lemma loop_body_file_count:
  "file_count (state_of (loop_body w item st)) =
     (case included_text w item of
        None \<Rightarrow> file_count st
      | Some t \<Rightarrow> file_count st + 1)"
  by (simp add: loop_body_def read_blob_def append_file_def log_def Let_def included_text_def
      eligible_def
      split: sum.splits decoded.splits option.splits)

lemma loop_body_Break_iff:
  "(\<exists>st'. loop_body w item st = Break st') \<longleftrightarrow>
     (\<exists>t. included_text w item = Some t \<and>
          length (code st @ file_header (path item) @ t) > max_code_length)"
  by (auto simp add: loop_body_def read_blob_def append_file_def log_def Let_def
      included_text_def eligible_def
      split: sum.splits decoded.splits option.splits)

lemma loop_body_fetched:
  "fetched_urls (trace (state_of (loop_body w item st))) =
     fetched_urls (trace st) @ (if eligible item then [url item] else [])"
  by (simp add: loop_body_def read_blob_def append_file_def log_def Let_def eligible_def
      fetched_urls_def split: sum.splits decoded.splits option.splits)

lemma loop_body_no_post:
  "completion_requests (trace (state_of (loop_body w item st))) = completion_requests (trace st)"
  by (simp add: loop_body_def read_blob_def append_file_def log_def Let_def
      completion_requests_def split: sum.splits decoded.splits option.splits)

lemma loop_body_Next_code:
  assumes "loop_body w item st = Next st'"
  shows "code st' = code st @ file_section w item"
    and "length (code st) \<le> max_code_length \<Longrightarrow> length (code st') \<le> max_code_length"
proof -
  have nb: "\<not> (\<exists>t. included_text w item = Some t \<and>
               length (code st @ file_header (path item) @ t) > max_code_length)"
    using assms loop_body_Break_iff [of w item st] by simp
  have c: "code st' = (case included_text w item of None \<Rightarrow> code st
             | Some t \<Rightarrow> truncate_code (code st @ file_header (path item) @ t))"
    using loop_body_code [of w item st] assms by simp
  show "code st' = code st @ file_section w item"
    using nb c by (cases "included_text w item") (simp_all add: file_section_def truncate_code_def)
  show "length (code st) \<le> max_code_length \<Longrightarrow> length (code st') \<le> max_code_length"
    using nb c by (cases "included_text w item") (simp_all add: truncate_code_def)
qed

lemma loop_body_Break_code:
  assumes "loop_body w item st = Break st'"
  shows "code st' = truncate_code (code st @ file_section w item)"
    and "length (code st @ file_section w item) > max_code_length"
proof -
  obtain t where t: "included_text w item = Some t"
    "length (code st @ file_header (path item) @ t) > max_code_length"
    using assms loop_body_Break_iff [of w item st] by auto
  show "code st' = truncate_code (code st @ file_section w item)"
    using loop_body_code [of w item st] assms t by (simp add: file_section_def)
  show "length (code st @ file_section w item) > max_code_length"
    using t by (simp add: file_section_def)
qed

subsection \<open>The loop\<close>

lemma for_loop_file_list:
  "file_list (for_loop w entries st) =
     file_list st @ concat (map manifest_line (take (entries_reached w entries st) entries))"
proof (induction entries arbitrary: st)
  case Nil
  show ?case by simp
next
  case (Cons item rest)
  show ?case
  proof (cases "caps_reached st")
    case True
    then show ?thesis by simp
  next
    case False
    show ?thesis
    proof (cases rule: loop_body_cases [of w item st])
      case (Break st')
      with False loop_body_file_list [of w item st] show ?thesis by simp
    next
      case (Next st')
      with False loop_body_file_list [of w item st] Cons.IH [of st'] show ?thesis by simp
    qed
  qed
qed

lemma for_loop_code:
  "length (code st) \<le> max_code_length \<Longrightarrow>
   code (for_loop w entries st) =
     truncate_code
       (code st @ concat (map (file_section w) (take (entries_reached w entries st) entries)))"
proof (induction entries arbitrary: st)
  case Nil
  then show ?case by (simp add: truncate_code_small)
next
  case (Cons item rest)
  show ?case
  proof (cases "caps_reached st")
    case True
    with Cons.prems show ?thesis by (simp add: truncate_code_small)
  next
    case False
    show ?thesis
    proof (cases rule: loop_body_cases [of w item st])
      case (Break st')
      with False loop_body_Break_code(1) [of w item st st'] show ?thesis by simp
    next
      case (Next st')
      from Next(1) have c: "code st' = code st @ file_section w item"
        and l: "length (code st') \<le> max_code_length"
        using loop_body_Next_code [of w item st st'] Cons.prems by auto
      from False Next c Cons.IH [OF l] show ?thesis by simp
    qed
  qed
qed

lemma for_loop_file_count:
  "file_count (for_loop w entries st) =
     file_count st +
     length (filter (\<lambda>item. included_text w item \<noteq> None)
               (take (entries_reached w entries st) entries))"
proof (induction entries arbitrary: st)
  case Nil
  show ?case by simp
next
  case (Cons item rest)
  show ?case
  proof (cases "caps_reached st")
    case True
    then show ?thesis by simp
  next
    case False
    show ?thesis
    proof (cases rule: loop_body_cases [of w item st])
      case (Break st')
      with False loop_body_file_count [of w item st] show ?thesis
        by (cases "included_text w item") simp_all
    next
      case (Next st')
      with False loop_body_file_count [of w item st] Cons.IH [of st'] show ?thesis
        by (cases "included_text w item") simp_all
    qed
  qed
qed

lemma for_loop_file_count_le:
  "file_count st \<le> max_files \<Longrightarrow> file_count (for_loop w entries st) \<le> max_files"
proof (induction entries arbitrary: st)
  case Nil
  then show ?case by simp
next
  case (Cons item rest)
  show ?case
  proof (cases "caps_reached st")
    case True
    with Cons.prems show ?thesis by simp
  next
    case False
    then have lt: "file_count st < max_files" by (simp add: caps_reached_def)
    have step: "file_count (state_of (loop_body w item st)) \<le> max_files"
      using lt loop_body_file_count [of w item st] by (cases "included_text w item") simp_all
    show ?thesis
    proof (cases rule: loop_body_cases [of w item st])
      case (Break st')
      with False step show ?thesis by simp
    next
      case (Next st')
      with False step Cons.IH [of st'] show ?thesis by simp
    qed
  qed
qed

lemma entries_reached_le: "entries_reached w entries st \<le> length entries"
  by (induction entries arbitrary: st) (auto split: flow.splits)

lemma for_loop_caps_not_reached:
  "\<not> caps_reached (for_loop w entries st) \<Longrightarrow> entries_reached w entries st = length entries"
proof (induction entries arbitrary: st)
  case Nil
  show ?case by simp
next
  case (Cons item rest)
  show ?case
  proof (cases "caps_reached st")
    case True
    with Cons.prems show ?thesis by simp
  next
    case False
    show ?thesis
    proof (cases rule: loop_body_cases [of w item st])
      case (Break st')
      from Break(1) have "length (code st') \<ge> max_code_length"
        using loop_body_Break_code [of w item st st'] by (simp add: truncate_code_def)
      with Break False Cons.prems show ?thesis by (simp add: caps_reached_def)
    next
      case (Next st')
      with False Cons.prems Cons.IH [of st'] show ?thesis by simp
    qed
  qed
qed

lemma for_loop_fetched:
  "fetched_urls (trace (for_loop w entries st)) =
     fetched_urls (trace st) @
     map url (filter eligible (take (entries_reached w entries st) entries))"
proof (induction entries arbitrary: st)
  case Nil
  show ?case by simp
next
  case (Cons item rest)
  show ?case
  proof (cases "caps_reached st")
    case True
    then show ?thesis by simp
  next
    case False
    show ?thesis
    proof (cases rule: loop_body_cases [of w item st])
      case (Break st')
      with False loop_body_fetched [of w item st] show ?thesis by simp
    next
      case (Next st')
      with False loop_body_fetched [of w item st] Cons.IH [of st'] show ?thesis by simp
    qed
  qed
qed

lemma for_loop_no_post:
  "completion_requests (trace (for_loop w entries st)) = completion_requests (trace st)"
proof (induction entries arbitrary: st)
  case Nil
  show ?case by simp
next
  case (Cons item rest)
  show ?case
  proof (cases "caps_reached st")
    case True
    then show ?thesis by simp
  next
    case False
    show ?thesis
    proof (cases rule: loop_body_cases [of w item st])
      case (Break st')
      with False loop_body_no_post [of w item st] show ?thesis by simp
    next
      case (Next st')
      with False loop_body_no_post [of w item st] Cons.IH [of st'] show ?thesis by simp
    qed
  qed
qed

lemma ineligible_section: "\<not> eligible item \<Longrightarrow> file_section w item = []"
  by (simp add: file_section_def included_text_def)

lemma concat_sections_eligible:
  "concat (map (file_section w) (filter eligible xs)) = concat (map (file_section w) xs)"
  by (induction xs) (simp_all add: ineligible_section)

lemma included_filter_eligible:
  "filter (\<lambda>item. included_text w item \<noteq> None) (filter eligible xs) =
   filter (\<lambda>item. included_text w item \<noteq> None) xs"
  by (induction xs) (simp_all add: included_text_def)

subsection \<open>The collector and its events\<close>

lemma fetch_tree_no_post:
  "completion_requests
     (case fetch_tree w u of Inl (e, evs) \<Rightarrow> evs | Inr (entries, evs) \<Rightarrow> evs) = []"
  by (simp add: fetch_tree_def completion_requests_def Let_def
      split: sum.splits prod.splits option.splits)

lemma collect_no_post:
  "completion_requests (snd (collect_code_from_github_repo w u)) = []"
  using fetch_tree_no_post [of w u]
  by (simp add: collect_code_from_github_repo_def Let_def for_loop_no_post
      split: sum.splits prod.splits)

subsection \<open>The scenarios, evaluated\<close>

lemmas scenario_simps =
  scenario_def test_repo_url_def ok_response_def error_response_def no_keys_def metadata_ok_def

lemmas collector_simps =
  collect_code_from_github_repo_def fetch_tree_def parse_repo_url_def
  strip_slashes_def repo_api_url_def tree_url_def initial_state_def caps_reached_def
  max_files_def max_code_length_def loop_body_def allowed_extensions_def endswith_def
  read_blob_def log_def append_file_def file_header_def Let_def

lemma length_big_text: "length big_text = 20001"
  unfolding big_text_def by (rule length_replicate)

lemma length_long_description: "length long_description = 20000"
  unfolding long_description_def by (rule length_replicate)

lemma fetch_tree_big_world:
  "fetch_tree big_world test_repo_url = Inr ([big_py, notes_md], evs0)"
  by (simp add: big_world_def scenario_simps collector_simps evs0_def)

lemma for_loop_big_world:
  "for_loop big_world [big_py, notes_md] (initial_state evs0) =
     \<lparr>code = take max_code_length (file_header ''big.py'' @ big_text) @ code_truncation_marker,
      file_list = ''\<newline>All repository files:\<newline>big.py\<newline>'',
      file_count = 1,
      trace = evs0 @ [LOG INFO ''Processing file: big.py'', GET ''https://api.github.com/repos/testuser/testrepo/git/blobs/big'']\<rparr>"
  by (simp add: big_world_def scenario_simps collector_simps big_py_def big_blobs_def
      big_decoder_def length_big_text)

lemma endswith_last:
  assumes "endswith s sfx" "sfx \<noteq> []"
  shows "last s = last sfx"
proof -
  from assms(1) obtain p where "s = p @ sfx" unfolding endswith_iff by blast
  with assms(2) show ?thesis by simp
qed

lemma last_code_truncation_marker: "last code_truncation_marker = CHR ''.''"
  by (simp add: code_truncation_marker_def)

lemma entries_reached_big_world:
  "entries_reached big_world [big_py, notes_md] (initial_state evs0) = 1"
  by (simp add: big_world_def scenario_simps collector_simps big_py_def big_blobs_def
      big_decoder_def length_big_text)

lemma file_section_big_py: "file_section big_world big_py = file_header ''big.py'' @ big_text"
  by (simp add: file_section_def included_text_def eligible_def big_world_def scenario_simps
      big_py_def big_blobs_def big_decoder_def allowed_extensions_def endswith_def)

lemma manifest_line_big_py: "manifest_line big_py = ''big.py\<newline>''"
  by (simp add: manifest_line_def big_py_def)

lemma fetch_tree_success_world:
  "fetch_tree success_world test_repo_url = Inr ([main_py], evs0)"
  by (simp add: success_world_def scenario_simps collector_simps evs0_def)

lemma for_loop_success_world:
  "for_loop success_world [main_py] (initial_state evs0) =
     \<lparr>code = file_header ''main.py'' @ hello_text,
      file_list = ''\<newline>All repository files:\<newline>main.py\<newline>'',
      file_count = 1,
      trace = evs0 @ [LOG INFO ''Processing file: main.py'',
                      GET ''https://api.github.com/repos/testuser/testrepo/git/blobs/sha1'']\<rparr>"
  by (simp add: success_world_def scenario_simps collector_simps main_py_def test_blobs_def
      test_decoder_def hello_text_def)


lemma contains_http_error:
  "contains ''HTTP error when accessing Mistral AI API.'' ''HTTP error when accessing Mistral AI API''"
  by (simp add: startswith_def)

lemma not_contains_key_message:
  "\<not> contains ''Mistral AI API key not found in environment variables.''
        ''HTTP error when accessing Mistral AI API''"
  by (simp add: startswith_def)

lemma collect_success_world:
  "collect_code_from_github_repo (scenario metadata_ok [main_py] test_blobs test_decoder k c)
     test_repo_url =
     (Inr (file_header ''main.py'' @ hello_text @ ''\<newline>All repository files:\<newline>main.py\<newline>''),
      evs0 @ [LOG INFO ''Processing file: main.py'',
              GET ''https://api.github.com/repos/testuser/testrepo/git/blobs/sha1''])"
  by (simp add: scenario_simps collector_simps main_py_def test_blobs_def
      test_decoder_def hello_text_def evs0_def)

lemma review_success_world:
  assumes "github_url_repo rr = test_repo_url"
  shows "review success_world rr =
     (Review test_review_text,
      evs0 @ [LOG INFO ''Processing file: main.py'',
              GET ''https://api.github.com/repos/testuser/testrepo/git/blobs/sha1'',
              LOG INFO ''Sending request to Mistral AI for review.'',
              POST api_url (build_prompt rr success_corpus)])"
proof -
  have c: "collect_code_from_github_repo success_world test_repo_url =
     (Inr success_corpus,
      evs0 @ [LOG INFO ''Processing file: main.py'',
              GET ''https://api.github.com/repos/testuser/testrepo/git/blobs/sha1''])"
    unfolding success_world_def success_corpus_def by (rule collect_success_world)
  have g: "get_mistral_review success_world p = (Inr test_review_text, [POST api_url p])" for p
    by (simp add: get_mistral_review_def success_world_def scenario_def completion_ok_def
        ok_response_def raise_for_status_def extract_review_def test_review_text_def)
  from assms c g show ?thesis by (simp add: review_def)
qed

lemma test_review_success:
  "fst (review success_world test_request) = Review ''This is a test review from Mistral AI.''"
  by (simp add: review_success_world test_request_def test_review_text_def)

lemma eligible_py [simp]: "eligible gone_py" "eligible empty_py" "eligible main_py" "eligible big_py"
  "\<not> eligible notes_md" "\<not> eligible src_dir"
  by (simp_all add: eligible_def gone_py_def empty_py_def main_py_def big_py_def notes_md_def
      src_dir_def allowed_extensions_def endswith_def)

lemma big_py_sel: "path big_py = ''big.py''" "url big_py = ''https://api.github.com/repos/testuser/testrepo/git/blobs/big''"
  by (simp_all add: big_py_def)

lemma main_py_sel: "path main_py = ''main.py''"
  "url main_py = ''https://api.github.com/repos/testuser/testrepo/git/blobs/sha1''"
  by (simp_all add: main_py_def)

lemma entries_reached_mixed:
  "entries_reached (test_world [notes_md, src_dir, main_py]) [notes_md, src_dir, main_py]
     (initial_state evs0) = 3"
  by (simp add: test_world_def scenario_simps collector_simps main_py_def notes_md_def
      src_dir_def test_blobs_def test_decoder_def hello_text_def)

lemma fetch_tree_ok_iff:
  "(\<exists>entries evs. fetch_tree w u = Inr (entries, evs)) \<longleftrightarrow>
   (\<exists>parsed_url response1 repo_data response2 tree_data.
      urlparse w u = Inr parsed_url \<and> netloc parsed_url = ''github.com''
      \<and> 2 \<le> length (split_slash (strip_slashes (url_path parsed_url)))
      \<and> http_get w (repo_api_url (split_slash (strip_slashes (url_path parsed_url)) ! 0)
                                  (split_slash (strip_slashes (url_path parsed_url)) ! 1))
          = Inr response1
      \<and> status_code response1 = 200 \<and> json response1 = Inr repo_data
      \<and> http_get w (tree_url (split_slash (strip_slashes (url_path parsed_url)) ! 0)
                              (split_slash (strip_slashes (url_path parsed_url)) ! 1)
                              (case default_branch repo_data of None \<Rightarrow> ''main'' | Some b \<Rightarrow> b))
          = Inr response2
      \<and> status_code response2 = 200 \<and> json response2 = Inr tree_data)"
  by (auto simp add: fetch_tree_def parse_repo_url_def Let_def
      split: sum.splits prod.splits if_splits)


lemma per_file_failure_step:
  assumes "eligible item"
    and "case http_get w (url item) of
           Inl e \<Rightarrow> True
         | Inr blob_response \<Rightarrow>
             status_code blob_response \<noteq> 200 \<or>
             (case json blob_response of
                Inl e \<Rightarrow> True
              | Inr blob_data \<Rightarrow>
                  encoding blob_data \<noteq> Some ''base64'' \<or>
                  (case b64decode_utf8 w
                          (case content blob_data of None \<Rightarrow> [] | Some c \<Rightarrow> c) of
                     Decoded t \<Rightarrow> False
                   | UnicodeDecodeError \<Rightarrow> True
                   | DecodeError m \<Rightarrow> True))"
  shows "\<exists>lv msg. lv \<noteq> INFO \<and>
           loop_body w item st =
             Next (st\<lparr>file_list := file_list st @ manifest_line item,
                      trace := trace st @ [LOG INFO (''Processing file: '' @ path item),
                                           GET (url item), LOG lv msg]\<rparr>)"
  using assms
  by (auto simp add: loop_body_def read_blob_def log_def Let_def eligible_def manifest_line_def
      split: sum.splits decoded.splits option.splits)

lemma gone_py_sel: "path gone_py = ''gone.py''" "url gone_py = ''https://api.github.com/repos/testuser/testrepo/git/blobs/gone''"
  by (simp_all add: gone_py_def)

lemma for_loop_flaky:
  "for_loop (test_world [gone_py, main_py]) [gone_py, main_py] (initial_state evs0) =
     \<lparr>code = file_header ''main.py'' @ hello_text,
      file_list = ''\<newline>All repository files:\<newline>gone.py\<newline>main.py\<newline>'',
      file_count = 1,
      trace = evs0 @ [LOG INFO ''Processing file: gone.py'', GET ''https://api.github.com/repos/testuser/testrepo/git/blobs/gone'',
                      LOG ERROR ''Error fetching file gone.py: 404'',
                      LOG INFO ''Processing file: main.py'',
                      GET ''https://api.github.com/repos/testuser/testrepo/git/blobs/sha1'']\<rparr>"
  by (simp add: test_world_def scenario_simps collector_simps main_py_def gone_py_def
      test_blobs_def test_decoder_def hello_text_def str_nat.simps)


subsection \<open>A stop at the cap of 100 files\<close>

text \<open>
  A tree of 101 entries \<^verbatim>\<open>empty.py\<close>, each with an empty content: the loop includes 100 of
  them and stops at the guard of line 89. The code text is the 100 headers, with no
  truncation marker, and the manifest has 100 lines.
\<close>

lemma empty_py_sel: "path empty_py = ''empty.py''"
  "url empty_py = ''https://api.github.com/repos/testuser/testrepo/git/blobs/empty''"
  by (simp_all add: empty_py_def)

lemma included_text_empty_py: "included_text (test_world es) empty_py = Some []"
  by (simp add: included_text_def test_world_def scenario_def empty_py_sel test_blobs_def
      test_decoder_def ok_response_def no_keys_def)

lemma file_section_empty_py:
  "file_section (test_world es) empty_py = ''\<newline>\<newline>// File: empty.py\<newline>''"
  by (simp add: file_section_def included_text_empty_py file_header_def empty_py_sel)

lemma loop_body_empty_py:
  assumes "length (code st) + 20 \<le> max_code_length"
  obtains st' where "loop_body (test_world es) empty_py st = Next st'"
    and "file_count st' = file_count st + 1" and "length (code st') = length (code st) + 20"
proof (cases rule: loop_body_cases [of "test_world es" empty_py st])
  case (Break st')
  then have "max_code_length < length (code st @ file_section (test_world es) empty_py)"
    using loop_body_Break_code(2) by blast
  with assms show ?thesis by (simp add: file_section_empty_py)
next
  case (Next st')
  have "file_count st' = file_count st + 1"
    using loop_body_file_count [of "test_world es" empty_py st] Next
    by (simp add: included_text_empty_py)
  moreover have "length (code st') = length (code st) + 20"
    using loop_body_Next_code(1) [OF Next(1)] by (simp add: file_section_empty_py)
  ultimately show ?thesis using Next(1) that by blast
qed

lemma entries_reached_empty_pys:
  "file_count st + n \<le> max_files \<Longrightarrow> length (code st) + 20 * Suc n \<le> max_code_length \<Longrightarrow>
   entries_reached (test_world es) (replicate n empty_py @ [empty_py]) st =
     (if file_count st + n = max_files then n else n + 1)"
proof (induction n arbitrary: st)
  case 0
  then have "length (code st) + 20 \<le> max_code_length" by simp
  then obtain st' where "loop_body (test_world es) empty_py st = Next st'"
    by (rule loop_body_empty_py)
  with 0 show ?case by (simp add: caps_reached_def)
next
  case (Suc n)
  then have nc: "\<not> caps_reached st" by (simp add: caps_reached_def)
  from Suc.prems have "length (code st) + 20 \<le> max_code_length" by simp
  then obtain st' where s: "loop_body (test_world es) empty_py st = Next st'"
    "file_count st' = file_count st + 1" "length (code st') = length (code st) + 20"
    by (rule loop_body_empty_py)
  from Suc.prems s have "file_count st' + n \<le> max_files"
    "length (code st') + 20 * Suc n \<le> max_code_length" by simp_all
  from Suc.IH [OF this] nc s show ?case by simp
qed

lemma entries_reached_101:
  "entries_reached (test_world es) (replicate 101 empty_py) (initial_state evs) = 100"
proof -
  have "(101::nat) = Suc 100" by simp
  then have "replicate 101 empty_py = replicate 100 empty_py @ [empty_py]"
    by (simp only: replicate_Suc replicate_append_same)
  then show ?thesis
    using entries_reached_empty_pys [of "initial_state evs" 100 es]
    by (simp add: max_files_def max_code_length_def)
qed

lemma stop_at_file_cap:
  "file_count (for_loop (test_world es) (replicate 101 empty_py) (initial_state evs)) = 100"
  "code (for_loop (test_world es) (replicate 101 empty_py) (initial_state evs)) =
     concat (replicate 100 ''\<newline>\<newline>// File: empty.py\<newline>'')"
  "file_list (for_loop (test_world es) (replicate 101 empty_py) (initial_state evs)) =
     ''\<newline>All repository files:\<newline>'' @ concat (replicate 100 ''empty.py\<newline>'')"
proof -
  have t: "take 100 (replicate 101 empty_py) = replicate 100 empty_py" by simp
  have m: "map f (replicate 100 empty_py) = replicate 100 (f empty_py)" for f :: "tree_item \<Rightarrow> string"
    by (rule map_replicate)
  have l: "length (concat (replicate n ''\<newline>\<newline>// File: empty.py\<newline>'')) = 20 * n" for n
    by (induction n) simp_all
  show "file_count (for_loop (test_world es) (replicate 101 empty_py) (initial_state evs)) = 100"
    unfolding for_loop_file_count entries_reached_101 t
    by (simp add: included_text_empty_py)
  show "code (for_loop (test_world es) (replicate 101 empty_py) (initial_state evs)) =
     concat (replicate 100 ''\<newline>\<newline>// File: empty.py\<newline>'')"
    using for_loop_code [of "initial_state evs" "test_world es" "replicate 101 empty_py"]
    unfolding entries_reached_101 t m file_section_empty_py
    by (simp add: truncate_code_def l max_code_length_def)
  show "file_list (for_loop (test_world es) (replicate 101 empty_py) (initial_state evs)) =
     ''\<newline>All repository files:\<newline>'' @ concat (replicate 100 ''empty.py\<newline>'')"
    unfolding for_loop_file_list entries_reached_101 t m initial_state_sel
    by (simp add: manifest_line_def empty_py_sel)
qed


section \<open>The claims\<close>

text \<open>
  C1, as amended. The code text of a collection never exceeds 20000 characters plus the 44
  characters of its truncation marker, and the prompt never exceeds 20000 characters plus
  the 46 characters of its marker: a text longer than its cap is cut to its first 20000
  characters and the marker is appended to the cut text, so the marker comes on top of the
  cap. (The manifest is appended to the code text afterwards and is not counted.) The code
  text is the text of the sections of the entries the loop reached.
\<close>

theorem code_and_prompt_caps:
  "length (code (for_loop w entries (initial_state evs)))
     \<le> max_code_length + length code_truncation_marker
   \<and> code (for_loop w entries (initial_state evs)) =
       (let full = concat (map (file_section w)
                     (take (entries_reached w entries (initial_state evs)) entries))
        in if length full > max_code_length
           then take max_code_length full @ code_truncation_marker else full)
   \<and> length (build_prompt review_request project_code)
       \<le> max_prompt_length + length prompt_truncation_marker
   \<and> build_prompt review_request project_code =
       (let full = prompt_template (candidate_level review_request)
                     (assignment_description review_request) (html_escape project_code)
        in if length full > max_prompt_length
           then take max_prompt_length full @ prompt_truncation_marker else full)"
proof -
  have c: "code (for_loop w entries (initial_state evs)) =
     truncate_code (concat (map (file_section w)
        (take (entries_reached w entries (initial_state evs)) entries)))"
    using for_loop_code [of "initial_state evs" w entries] by simp
  have "length (code (for_loop w entries (initial_state evs)))
     \<le> max_code_length + length code_truncation_marker"
    unfolding c by (rule length_truncate_code)
  moreover have "length (build_prompt review_request project_code)
       \<le> max_prompt_length + length prompt_truncation_marker"
    unfolding build_prompt_def by (rule length_truncate_prompt)
  ultimately show ?thesis
    using c by (simp add: truncate_code_def build_prompt_def truncate_prompt_def Let_def)
qed

text \<open>
  C1 as stated fails: in the scenario of the file of 20001 characters the code text has
  20044 characters, and for the request with a description of 20000 characters in the
  scenario of \<^verbatim>\<open>test_review_success\<close> the prompt sent to the completion service has 20046.
\<close>

theorem code_and_prompt_caps_counterexample:
  "length (code (for_loop big_world [big_py, notes_md] (initial_state evs0))) = 20044
   \<and> \<not> length (code (for_loop big_world [big_py, notes_md] (initial_state evs0))) \<le> 20000
   \<and> completion_requests (snd (review success_world long_request)) =
       [POST api_url (build_prompt long_request success_corpus)]
   \<and> length (build_prompt long_request success_corpus) = 20046
   \<and> \<not> length (build_prompt long_request success_corpus) \<le> 20000"
proof -
  have "length (code (for_loop big_world [big_py, notes_md] (initial_state evs0))) = 20044"
    by (simp add: for_loop_big_world max_code_length_def marker_lengths length_big_text
        file_header_def del: for_loop.simps)
  moreover have "length (build_prompt long_request success_corpus) = 20046"
    by (simp add: build_prompt_def truncate_prompt_def length_prompt_template long_request_def
        length_long_description max_prompt_length_def marker_lengths)
  moreover have "completion_requests (snd (review success_world long_request)) =
       [POST api_url (build_prompt long_request success_corpus)]"
    by (simp add: review_success_world long_request_def completion_requests_def evs0_def)
  ultimately show ?thesis by simp
qed

text \<open>
  The bounds at work, on the file of 20001 characters and on the request with the
  description of 20000 characters.
\<close>

theorem code_and_prompt_caps_witness:
  "length (code (for_loop big_world [big_py, notes_md] (initial_state evs0))) \<le> 20044
   \<and> length (build_prompt long_request success_corpus) \<le> 20046"
proof -
  note t = code_and_prompt_caps
    [of big_world "[big_py, notes_md]" evs0 long_request success_corpus]
  have "length (code (for_loop big_world [big_py, notes_md] (initial_state evs0))) \<le> 20044"
    using t [THEN conjunct1] by (simp only: marker_lengths max_code_length_def)
  moreover have "length (build_prompt long_request success_corpus) \<le> 20046"
    using t [THEN conjunct2, THEN conjunct2, THEN conjunct1]
    by (simp only: marker_lengths max_prompt_length_def)
  ultimately show ?thesis by (rule conjI)
qed

text \<open>
  C2, as amended. Whenever appending a file pushes the code text past 20000 characters, the
  string the collector returns is the first 20000 characters of the code text, then the
  literal truncation marker, then the manifest of the entries reached: the marker is
  there, followed by the manifest rather than ending the string.
\<close>

theorem truncated_corpus_shape:
  assumes "fetch_tree w repo_url = Inr (entries, evs)"
    and "max_code_length <
           length (concat (map (file_section w)
                     (take (entries_reached w entries (initial_state evs)) entries)))"
  shows "fst (collect_code_from_github_repo w repo_url) =
           Inr (take max_code_length
                  (concat (map (file_section w)
                     (take (entries_reached w entries (initial_state evs)) entries)))
                @ code_truncation_marker
                @ ''\<newline>All repository files:\<newline>''
                @ concat (map manifest_line
                     (take (entries_reached w entries (initial_state evs)) entries)))"
proof -
  have "code (for_loop w entries (initial_state evs)) =
     truncate_code (concat (map (file_section w)
        (take (entries_reached w entries (initial_state evs)) entries)))"
    using for_loop_code [of "initial_state evs" w entries] by simp
  with assms show ?thesis
    by (simp add: collect_code_from_github_repo_def Let_def truncate_code_def for_loop_file_list)
qed

text \<open>
  In the scenario of the file of 20001 characters the collector returns the first 20000
  characters of the section of \<^verbatim>\<open>big.py\<close>, the marker, and the manifest of the one entry
  reached.
\<close>

theorem truncated_corpus_shape_witness:
  "fst (collect_code_from_github_repo big_world test_repo_url) =
     Inr (take max_code_length (file_header ''big.py'' @ big_text)
          @ code_truncation_marker @ ''\<newline>All repository files:\<newline>big.py\<newline>'')"
proof -
  have "max_code_length <
           length (concat (map (file_section big_world)
                     (take (entries_reached big_world [big_py, notes_md] (initial_state evs0))
                        [big_py, notes_md])))"
    by (simp add: entries_reached_big_world file_section_big_py length_big_text
        max_code_length_def del: entries_reached.simps)
  from truncated_corpus_shape [OF fetch_tree_big_world this]
  show ?thesis
    by (simp add: entries_reached_big_world file_section_big_py manifest_line_big_py
        del: entries_reached.simps)
qed

text \<open>
  C2 as stated fails: in the scenario of the file of 20001 characters the collection stops
  at the cap of 20000 characters, and the string returned ends with the manifest, not with
  the marker.
\<close>

theorem corpus_ends_with_marker_counterexample:
  "fst (collect_code_from_github_repo big_world test_repo_url) =
     Inr (take max_code_length (file_header ''big.py'' @ big_text)
          @ code_truncation_marker @ ''\<newline>All repository files:\<newline>big.py\<newline>'')
   \<and> max_code_length < length (file_header ''big.py'' @ big_text)
   \<and> \<not> endswith (take max_code_length (file_header ''big.py'' @ big_text)
          @ code_truncation_marker @ ''\<newline>All repository files:\<newline>big.py\<newline>'')
        code_truncation_marker"
proof -
  have a: "fst (collect_code_from_github_repo big_world test_repo_url) =
     Inr (take max_code_length (file_header ''big.py'' @ big_text)
          @ code_truncation_marker @ ''\<newline>All repository files:\<newline>big.py\<newline>'')"
    by (simp add: collect_code_from_github_repo_def fetch_tree_big_world for_loop_big_world
        del: for_loop.simps)
  have b: "max_code_length < length (file_header ''big.py'' @ big_text)"
    by (simp add: length_big_text max_code_length_def)
  have c: "\<not> endswith (take max_code_length (file_header ''big.py'' @ big_text)
          @ code_truncation_marker @ ''\<newline>All repository files:\<newline>big.py\<newline>'')
        code_truncation_marker"
  proof
    assume "endswith (take max_code_length (file_header ''big.py'' @ big_text)
          @ code_truncation_marker @ ''\<newline>All repository files:\<newline>big.py\<newline>'')
        code_truncation_marker"
    then have "last (take max_code_length (file_header ''big.py'' @ big_text)
          @ code_truncation_marker @ ''\<newline>All repository files:\<newline>big.py\<newline>'') =
          last code_truncation_marker"
      by (rule endswith_last) (simp add: code_truncation_marker_def)
    then show False by (simp add: last_code_truncation_marker)
  qed
  from a b c show ?thesis by simp
qed

text \<open>
  C3, as amended. The manifest appended to the corpus lists the path of every entry the
  loop reached before it stopped, in encounter order, one per line, whether or not the
  content of the entry was included; the entries after the one at which a cap stopped the
  loop are not listed. When neither cap is reached at the end of the loop, the manifest
  lists every path of the tree.
\<close>

theorem manifest_lists_reached_entries:
  "file_list (for_loop w entries (initial_state evs)) =
     ''\<newline>All repository files:\<newline>'' @
     concat (map manifest_line (take (entries_reached w entries (initial_state evs)) entries))
   \<and> entries_reached w entries (initial_state evs) \<le> length entries
   \<and> (\<not> caps_reached (for_loop w entries (initial_state evs)) \<longrightarrow>
        file_list (for_loop w entries (initial_state evs)) =
          ''\<newline>All repository files:\<newline>'' @ concat (map manifest_line entries))
   \<and> (fetch_tree w repo_url = Inr (entries, evs) \<longrightarrow>
        fst (collect_code_from_github_repo w repo_url) =
          Inr (code (for_loop w entries (initial_state evs)) @
               file_list (for_loop w entries (initial_state evs))))"
proof -
  have a: "file_list (for_loop w entries (initial_state evs)) =
     ''\<newline>All repository files:\<newline>'' @
     concat (map manifest_line (take (entries_reached w entries (initial_state evs)) entries))"
    unfolding for_loop_file_list initial_state_sel ..
  have b: "\<not> caps_reached (for_loop w entries (initial_state evs)) \<Longrightarrow>
        file_list (for_loop w entries (initial_state evs)) =
          ''\<newline>All repository files:\<newline>'' @ concat (map manifest_line entries)"
    unfolding a using for_loop_caps_not_reached [of w entries "initial_state evs"] by simp
  have c: "fetch_tree w repo_url = Inr (entries, evs) \<Longrightarrow>
        fst (collect_code_from_github_repo w repo_url) =
          Inr (code (for_loop w entries (initial_state evs)) @
               file_list (for_loop w entries (initial_state evs)))"
    by (simp add: collect_code_from_github_repo_def Let_def)
  from a b c entries_reached_le [of w entries "initial_state evs"] show ?thesis by blast
qed

text \<open>
  In the scenario of \<^verbatim>\<open>test_review_success\<close> no cap is reached, and the manifest lists the
  one path of the tree.
\<close>

theorem manifest_lists_reached_entries_witness:
  "\<not> caps_reached (for_loop success_world [main_py] (initial_state evs0))
   \<and> file_list (for_loop success_world [main_py] (initial_state evs0)) =
       ''\<newline>All repository files:\<newline>main.py\<newline>''
   \<and> fetch_tree success_world test_repo_url = Inr ([main_py], evs0)
   \<and> fst (collect_code_from_github_repo success_world test_repo_url) =
       Inr (file_header ''main.py'' @ hello_text @ ''\<newline>All repository files:\<newline>main.py\<newline>'')"
proof -
  note t = manifest_lists_reached_entries [of success_world "[main_py]" evs0 test_repo_url]
  have nc: "\<not> caps_reached (for_loop success_world [main_py] (initial_state evs0))"
    unfolding for_loop_success_world
    by (simp add: caps_reached_def max_files_def max_code_length_def file_header_def
        hello_text_def)
  from t nc have "file_list (for_loop success_world [main_py] (initial_state evs0)) =
       ''\<newline>All repository files:\<newline>'' @ concat (map manifest_line [main_py])"
    by blast
  then have fl: "file_list (for_loop success_world [main_py] (initial_state evs0)) =
       ''\<newline>All repository files:\<newline>main.py\<newline>''"
    by (simp add: manifest_line_def main_py_def)
  from t fetch_tree_success_world
  have "fst (collect_code_from_github_repo success_world test_repo_url) =
          Inr (code (for_loop success_world [main_py] (initial_state evs0)) @
               file_list (for_loop success_world [main_py] (initial_state evs0)))"
    by blast
  then have "fst (collect_code_from_github_repo success_world test_repo_url) =
       Inr (file_header ''main.py'' @ hello_text @ ''\<newline>All repository files:\<newline>main.py\<newline>'')"
    unfolding for_loop_success_world by simp
  with nc fl fetch_tree_success_world show ?thesis by blast
qed

text \<open>
  C3 as stated fails: in the scenario of the file of 20001 characters the tree has the
  entries \<^verbatim>\<open>big.py\<close> and \<^verbatim>\<open>notes.md\<close>, and the manifest lists \<^verbatim>\<open>big.py\<close> only; for the
  tree of 101 entries \<^verbatim>\<open>empty.py\<close> the manifest has 100 lines.
\<close>

theorem manifest_lists_every_path_counterexample:
  "fetch_tree big_world test_repo_url = Inr ([big_py, notes_md], evs0)
   \<and> file_list (for_loop big_world [big_py, notes_md] (initial_state evs0)) =
       ''\<newline>All repository files:\<newline>big.py\<newline>''
   \<and> file_list (for_loop big_world [big_py, notes_md] (initial_state evs0)) \<noteq>
       ''\<newline>All repository files:\<newline>'' @ concat (map manifest_line [big_py, notes_md])
   \<and> file_list (for_loop (test_world (replicate 101 empty_py)) (replicate 101 empty_py)
         (initial_state evs0)) =
       ''\<newline>All repository files:\<newline>'' @ concat (replicate 100 ''empty.py\<newline>'')
   \<and> file_list (for_loop (test_world (replicate 101 empty_py)) (replicate 101 empty_py)
         (initial_state evs0)) \<noteq>
       ''\<newline>All repository files:\<newline>'' @
       concat (map manifest_line (replicate 101 empty_py))"
proof -
  have "concat (map manifest_line [big_py, notes_md]) = ''big.py\<newline>notes.md\<newline>''"
    by (simp add: manifest_line_def big_py_def notes_md_def)
  then have big: "file_list (for_loop big_world [big_py, notes_md] (initial_state evs0)) =
       ''\<newline>All repository files:\<newline>big.py\<newline>''
   \<and> file_list (for_loop big_world [big_py, notes_md] (initial_state evs0)) \<noteq>
       ''\<newline>All repository files:\<newline>'' @ concat (map manifest_line [big_py, notes_md])"
    by (simp add: for_loop_big_world del: for_loop.simps)
  have l: "length (concat (replicate n ''empty.py\<newline>'')) = 9 * n" for n
    by (induction n) simp_all
  have "concat (map manifest_line (replicate 101 empty_py)) =
          concat (replicate 101 ''empty.py\<newline>'')"
    by (simp add: manifest_line_def empty_py_sel)
  moreover have "concat (replicate 100 ''empty.py\<newline>'') \<noteq>
                 concat (replicate 101 ''empty.py\<newline>'')"
  proof
    assume "concat (replicate 100 ''empty.py\<newline>'') = concat (replicate 101 ''empty.py\<newline>'')"
    then have "length (concat (replicate 100 ''empty.py\<newline>'')) =
               length (concat (replicate 101 ''empty.py\<newline>''))"
      by (rule arg_cong)
    then show False unfolding l by simp
  qed
  ultimately have many: "file_list (for_loop (test_world (replicate 101 empty_py))
         (replicate 101 empty_py) (initial_state evs0)) \<noteq>
       ''\<newline>All repository files:\<newline>'' @
       concat (map manifest_line (replicate 101 empty_py))"
    unfolding stop_at_file_cap(3) by simp
  from big many fetch_tree_big_world stop_at_file_cap(3) [of "replicate 101 empty_py" evs0]
  show ?thesis by blast
qed

text \<open>
  C4. When the collection has returned a corpus, the API key is set and the POST to the
  completion service is answered with a status that is not 2xx (500, say), the endpoint
  answers 500 with the detail \<^verbatim>\<open>HTTP error when accessing Mistral AI API.\<close>, and nothing
  else.
\<close>

theorem completion_http_error_gives_500:
  assumes "collect_code_from_github_repo w (github_url_repo review_request) = (Inr project_code, evs)"
    and "getenv_MISTRAL_API_KEY w = Some api_key" and "api_key \<noteq> []"
    and "http_post w api_url api_key (build_prompt review_request project_code) = Inr response"
    and "\<not> (200 \<le> status_code response \<and> status_code response \<le> 299)"
  shows "fst (review w review_request) =
           HTTPException 500 ''HTTP error when accessing Mistral AI API.''"
proof -
  have "get_mistral_review w (build_prompt review_request project_code) =
          (Inl (Exception ''HTTP error when accessing Mistral AI API.''),
           [POST api_url (build_prompt review_request project_code),
            LOG ERROR (''HTTP error when accessing Mistral AI API: '' @
                       str_nat (status_code response) @ '' - '' @ response_text response)])"
  proof -
    have r: "raise_for_status response =
               Some (HTTPStatusError [] (status_code response) (response_text response))"
      using assms(5) by (auto simp add: raise_for_status_def)
    show ?thesis
      using assms(2-4) r by (simp add: get_mistral_review_def mistral_handlers_def Let_def)
  qed
  with assms(1) show ?thesis
    by (simp add: review_def Let_def review_handlers_def contains_http_error
        del: contains.simps)
qed

text \<open>The scenario of \<^verbatim>\<open>test_review_mistral_api_error\<close>.\<close>

theorem completion_http_error_gives_500_witness:
  "fst (review mistral_500_world test_request) =
     HTTPException 500 ''HTTP error when accessing Mistral AI API.''"
proof (rule completion_http_error_gives_500)
  show "collect_code_from_github_repo mistral_500_world (github_url_repo test_request) =
    (Inr (file_header ''main.py'' @ hello_text @ ''\<newline>All repository files:\<newline>main.py\<newline>''),
      evs0 @ [LOG INFO ''Processing file: main.py'',
              GET ''https://api.github.com/repos/testuser/testrepo/git/blobs/sha1''])"
    unfolding mistral_500_world_def using collect_success_world by (simp add: test_request_def)
  show "getenv_MISTRAL_API_KEY mistral_500_world = Some ''secret''"
    by (simp add: mistral_500_world_def scenario_def)
  show "''secret'' \<noteq> []" by simp
  show "http_post mistral_500_world api_url ''secret''
     (build_prompt test_request
        (file_header ''main.py'' @ hello_text @ ''\<newline>All repository files:\<newline>main.py\<newline>'')) =
     Inr (error_response 500 ''Internal Server Error'')"
    by (simp add: mistral_500_world_def scenario_def)
  show "\<not> (200 \<le> status_code (error_response 500 ''Internal Server Error'' :: completion_json response)
          \<and> status_code (error_response 500 ''Internal Server Error'' :: completion_json response) \<le> 299)"
    by (simp add: error_response_def)
qed

text \<open>
  C5. When the URL names an owner and a repository and the metadata request is answered
  with a status other than 200 (404, say), the endpoint answers 400 with the fixed message
  about the URL and the access rights; the run makes the metadata request and one log
  record, and no request to the completion service.
\<close>

theorem metadata_not_200_gives_400:
  assumes "parse_repo_url w (github_url_repo review_request) = Inr (owner, repo_name)"
    and "http_get w (repo_api_url owner repo_name) = Inr response"
    and "status_code response \<noteq> 200"
  shows "review w review_request =
           (HTTPException 400
              ''Failed to access GitHub repository. Check the URL and access rights.'',
            [GET (repo_api_url owner repo_name),
             LOG ERROR (''Error fetching repository data: '' @ str_nat (status_code response))])
         \<and> completion_requests (snd (review w review_request)) = []"
proof -
  have "fetch_tree w (github_url_repo review_request) =
     Inl (ValueError ''Failed to access GitHub repository. Check the URL and access rights.'',
          [GET (repo_api_url owner repo_name),
           LOG ERROR (''Error fetching repository data: '' @ str_nat (status_code response))])"
    using assms by (simp add: fetch_tree_def Let_def)
  then have "review w review_request =
           (HTTPException 400
              ''Failed to access GitHub repository. Check the URL and access rights.'',
            [GET (repo_api_url owner repo_name),
             LOG ERROR (''Error fetching repository data: '' @ str_nat (status_code response))])"
    by (simp add: review_def collect_code_from_github_repo_def review_handlers_def)
  then show ?thesis by (simp add: completion_requests_def)
qed

text \<open>The scenario of \<^verbatim>\<open>test_review_github_api_error\<close>, with its whole trace.\<close>

theorem metadata_not_200_gives_400_witness:
  "review not_found_world test_request =
     (HTTPException 400
        ''Failed to access GitHub repository. Check the URL and access rights.'',
      [GET ''https://api.github.com/repos/testuser/testrepo'',
       LOG ERROR ''Error fetching repository data: 404''])
   \<and> completion_requests (snd (review not_found_world test_request)) = []"
proof -
  have a: "parse_repo_url not_found_world (github_url_repo test_request) =
             Inr (''testuser'', ''testrepo'')"
    by (simp add: not_found_world_def scenario_simps test_request_def parse_repo_url_def
        strip_slashes_def)
  have b: "http_get not_found_world (repo_api_url ''testuser'' ''testrepo'') =
             Inr (error_response 404 [])"
    by (simp add: not_found_world_def scenario_def repo_api_url_def)
  have c: "status_code (error_response 404 [] :: github_json response) \<noteq> 200"
    by (simp add: error_response_def)
  have d: "str_nat 404 = ''404''" by (simp add: str_nat.simps)
  from metadata_not_200_gives_400 [OF a b c] show ?thesis
    by (simp add: repo_api_url_def error_response_def d completion_requests_def)
qed

text \<open>
  C6. In the loop, an eligible entry whose blob cannot be read (the request raises or is
  answered with a status other than 200, the body is not JSON, the encoding is not base64,
  the decoding raises \<^verbatim>\<open>UnicodeDecodeError\<close> or another exception) leaves the code text and
  the file counter as they were: its path goes to the manifest, a record of level WARNING
  or ERROR is logged, and the loop goes on with the next entry. The collector returns a
  corpus exactly when the tree was fetched, that is when the URL has the host
  \<^verbatim>\<open>github.com\<close> and two path segments and the metadata request and the tree request are
  both answered with the status 200 and a JSON body: nothing that happens in the loop
  aborts the collection.
\<close>

theorem per_file_failures_skipped_fetch_failures_fatal:
  "(\<not> caps_reached st \<and> eligible item \<and>
      (case http_get w (url item) of
         Inl e \<Rightarrow> True
       | Inr blob_response \<Rightarrow>
           status_code blob_response \<noteq> 200 \<or>
           (case json blob_response of
              Inl e \<Rightarrow> True
            | Inr blob_data \<Rightarrow>
                encoding blob_data \<noteq> Some ''base64'' \<or>
                (case b64decode_utf8 w
                        (case content blob_data of None \<Rightarrow> [] | Some c \<Rightarrow> c) of
                   Decoded t \<Rightarrow> False
                 | UnicodeDecodeError \<Rightarrow> True
                 | DecodeError m \<Rightarrow> True)))
    \<longrightarrow> (\<exists>lv msg. lv \<noteq> INFO \<and>
           \<not> caps_reached
               (st\<lparr>file_list := file_list st @ manifest_line item,
                   trace := trace st @ [LOG INFO (''Processing file: '' @ path item),
                                        GET (url item), LOG lv msg]\<rparr>) \<and>
           for_loop w (item # rest) st =
             for_loop w rest
               (st\<lparr>file_list := file_list st @ manifest_line item,
                   trace := trace st @ [LOG INFO (''Processing file: '' @ path item),
                                        GET (url item), LOG lv msg]\<rparr>)))
   \<and> ((\<exists>corpus evs. collect_code_from_github_repo w u = (Inr corpus, evs)) \<longleftrightarrow>
        (\<exists>entries evs. fetch_tree w u = Inr (entries, evs)))
   \<and> ((\<exists>entries evs. fetch_tree w u = Inr (entries, evs)) \<longleftrightarrow>
        (\<exists>parsed_url response1 repo_data response2 tree_data.
           urlparse w u = Inr parsed_url \<and> netloc parsed_url = ''github.com''
           \<and> 2 \<le> length (split_slash (strip_slashes (url_path parsed_url)))
           \<and> http_get w (repo_api_url (split_slash (strip_slashes (url_path parsed_url)) ! 0)
                                       (split_slash (strip_slashes (url_path parsed_url)) ! 1))
               = Inr response1
           \<and> status_code response1 = 200 \<and> json response1 = Inr repo_data
           \<and> http_get w (tree_url (split_slash (strip_slashes (url_path parsed_url)) ! 0)
                                   (split_slash (strip_slashes (url_path parsed_url)) ! 1)
                                   (case default_branch repo_data of
                                      None \<Rightarrow> ''main'' | Some b \<Rightarrow> b))
               = Inr response2
           \<and> status_code response2 = 200 \<and> json response2 = Inr tree_data))"
proof (intro conjI impI)
  assume a: "\<not> caps_reached st \<and> eligible item \<and>
      (case http_get w (url item) of
         Inl e \<Rightarrow> True
       | Inr blob_response \<Rightarrow>
           status_code blob_response \<noteq> 200 \<or>
           (case json blob_response of
              Inl e \<Rightarrow> True
            | Inr blob_data \<Rightarrow>
                encoding blob_data \<noteq> Some ''base64'' \<or>
                (case b64decode_utf8 w
                        (case content blob_data of None \<Rightarrow> [] | Some c \<Rightarrow> c) of
                   Decoded t \<Rightarrow> False
                 | UnicodeDecodeError \<Rightarrow> True
                 | DecodeError m \<Rightarrow> True)))"
  then obtain lv msg where s: "lv \<noteq> INFO"
    "loop_body w item st =
       Next (st\<lparr>file_list := file_list st @ manifest_line item,
                trace := trace st @ [LOG INFO (''Processing file: '' @ path item),
                                     GET (url item), LOG lv msg]\<rparr>)"
    using per_file_failure_step [of item w st] by blast
  from a s show "\<exists>lv msg. lv \<noteq> INFO \<and>
           \<not> caps_reached
               (st\<lparr>file_list := file_list st @ manifest_line item,
                   trace := trace st @ [LOG INFO (''Processing file: '' @ path item),
                                        GET (url item), LOG lv msg]\<rparr>) \<and>
           for_loop w (item # rest) st =
             for_loop w rest
               (st\<lparr>file_list := file_list st @ manifest_line item,
                   trace := trace st @ [LOG INFO (''Processing file: '' @ path item),
                                        GET (url item), LOG lv msg]\<rparr>)"
    by (intro exI [of _ lv] exI [of _ msg]) (simp add: caps_reached_def)
next
  show "(\<exists>corpus evs. collect_code_from_github_repo w u = (Inr corpus, evs)) \<longleftrightarrow>
        (\<exists>entries evs. fetch_tree w u = Inr (entries, evs))"
    by (auto simp add: collect_code_from_github_repo_def Let_def split: sum.splits prod.splits)
next
  show "(\<exists>entries evs. fetch_tree w u = Inr (entries, evs)) \<longleftrightarrow>
        (\<exists>parsed_url response1 repo_data response2 tree_data.
           urlparse w u = Inr parsed_url \<and> netloc parsed_url = ''github.com''
           \<and> 2 \<le> length (split_slash (strip_slashes (url_path parsed_url)))
           \<and> http_get w (repo_api_url (split_slash (strip_slashes (url_path parsed_url)) ! 0)
                                       (split_slash (strip_slashes (url_path parsed_url)) ! 1))
               = Inr response1
           \<and> status_code response1 = 200 \<and> json response1 = Inr repo_data
           \<and> http_get w (tree_url (split_slash (strip_slashes (url_path parsed_url)) ! 0)
                                   (split_slash (strip_slashes (url_path parsed_url)) ! 1)
                                   (case default_branch repo_data of
                                      None \<Rightarrow> ''main'' | Some b \<Rightarrow> b))
               = Inr response2
           \<and> status_code response2 = 200 \<and> json response2 = Inr tree_data)"
    by (rule fetch_tree_ok_iff)
qed

text \<open>
  A tree of two entries: the blob of \<^verbatim>\<open>gone.py\<close> is answered with 404, the loop logs an error
  and goes on, and \<^verbatim>\<open>main.py\<close> is included.
\<close>

theorem per_file_failures_skipped_fetch_failures_fatal_witness:
  "(\<exists>lv msg. lv \<noteq> INFO \<and>
      for_loop (test_world [gone_py, main_py]) [gone_py, main_py] (initial_state evs0) =
        for_loop (test_world [gone_py, main_py]) [main_py]
          ((initial_state evs0)
             \<lparr>file_list := ''\<newline>All repository files:\<newline>gone.py\<newline>'',
              trace := evs0 @ [LOG INFO ''Processing file: gone.py'', GET ''https://api.github.com/repos/testuser/testrepo/git/blobs/gone'',
                               LOG lv msg]\<rparr>))
   \<and> code (for_loop (test_world [gone_py, main_py]) [gone_py, main_py] (initial_state evs0)) =
       file_header ''main.py'' @ hello_text"
proof -
  have 1: "\<not> caps_reached (initial_state evs0)"
    by (simp add: caps_reached_def max_files_def max_code_length_def)
  have 3: "case http_get (test_world [gone_py, main_py]) (url gone_py) of
         Inl e \<Rightarrow> True
       | Inr blob_response \<Rightarrow>
           status_code blob_response \<noteq> 200 \<or>
           (case json blob_response of
              Inl e \<Rightarrow> True
            | Inr blob_data \<Rightarrow>
                encoding blob_data \<noteq> Some ''base64'' \<or>
                (case b64decode_utf8 (test_world [gone_py, main_py])
                        (case content blob_data of None \<Rightarrow> [] | Some c \<Rightarrow> c) of
                   Decoded t \<Rightarrow> False
                 | UnicodeDecodeError \<Rightarrow> True
                 | DecodeError m \<Rightarrow> True))"
    by (simp add: test_world_def scenario_def gone_py_def test_blobs_def error_response_def)
  from per_file_failures_skipped_fetch_failures_fatal
         [of "initial_state evs0" gone_py "test_world [gone_py, main_py]" "[main_py]",
          THEN conjunct1, rule_format, OF conjI [OF 1 conjI [OF eligible_py(1) 3]]]
  have "\<exists>lv msg. lv \<noteq> INFO \<and>
      for_loop (test_world [gone_py, main_py]) [gone_py, main_py] (initial_state evs0) =
        for_loop (test_world [gone_py, main_py]) [main_py]
          ((initial_state evs0)
             \<lparr>file_list := ''\<newline>All repository files:\<newline>gone.py\<newline>'',
              trace := evs0 @ [LOG INFO ''Processing file: gone.py'', GET ''https://api.github.com/repos/testuser/testrepo/git/blobs/gone'',
                               LOG lv msg]\<rparr>)"
    by (auto simp add: manifest_line_def gone_py_sel simp del: for_loop.simps)
  then show ?thesis
    by (simp add: for_loop_flaky del: for_loop.simps)
qed


text \<open>
  C7. When the text decoded for an entry makes the code text longer than 20000 characters,
  the loop ends at that entry whatever entries follow: the code text is its first 20000
  characters (exactly 20000, so the body of the last file may be cut) followed by the
  truncation marker.
\<close>

theorem append_past_cap_truncates_and_stops:
  assumes "\<not> caps_reached st" and "eligible item"
    and "http_get w (url item) = Inr blob_response"
    and "status_code blob_response = 200"
    and "json blob_response = Inr blob_data"
    and "encoding blob_data = Some ''base64''"
    and "b64decode_utf8 w (case content blob_data of None \<Rightarrow> [] | Some c \<Rightarrow> c) =
           Decoded file_content"
    and "max_code_length < length (code st @ file_header (path item) @ file_content)"
  shows "for_loop w (item # rest) st =
           st\<lparr>code := take max_code_length (code st @ file_header (path item) @ file_content)
                        @ code_truncation_marker,
               file_list := file_list st @ manifest_line item,
               file_count := file_count st + 1,
               trace := trace st @ [LOG INFO (''Processing file: '' @ path item),
                                    GET (url item)]\<rparr>
         \<and> length (take max_code_length (code st @ file_header (path item) @ file_content))
             = max_code_length"
proof -
  have "loop_body w item st =
          Break (st\<lparr>code := take max_code_length (code st @ file_header (path item) @ file_content)
                        @ code_truncation_marker,
               file_list := file_list st @ manifest_line item,
               file_count := file_count st + 1,
               trace := trace st @ [LOG INFO (''Processing file: '' @ path item),
                                    GET (url item)]\<rparr>)"
    using assms(2-8)
    by (simp add: loop_body_def read_blob_def append_file_def log_def Let_def eligible_def
        manifest_line_def)
  with assms(1,8) show ?thesis by simp
qed

text \<open>
  In the scenario of the file of 20001 characters the body of \<^verbatim>\<open>big.py\<close> is cut after 19982
  characters, and \<^verbatim>\<open>notes.md\<close> is never reached.
\<close>

theorem append_past_cap_truncates_and_stops_witness:
  "for_loop big_world [big_py, notes_md] (initial_state evs0) =
     \<lparr>code = file_header ''big.py'' @ take 19982 big_text @ code_truncation_marker,
      file_list = ''\<newline>All repository files:\<newline>big.py\<newline>'',
      file_count = 1,
      trace = evs0 @ [LOG INFO ''Processing file: big.py'', GET ''https://api.github.com/repos/testuser/testrepo/git/blobs/big'']\<rparr>"
proof -
  have 1: "\<not> caps_reached (initial_state evs0)"
    by (simp add: caps_reached_def max_files_def max_code_length_def)
  have 3: "http_get big_world (url big_py) =
       Inr (ok_response (no_keys\<lparr>content := Some big_content, encoding := Some ''base64''\<rparr>))"
    by (simp add: big_world_def scenario_def big_py_def big_blobs_def)
  have 4: "status_code (ok_response
             (no_keys\<lparr>content := Some big_content, encoding := Some ''base64''\<rparr>)) = 200"
    by (simp add: ok_response_def)
  have 5: "json (ok_response (no_keys\<lparr>content := Some big_content, encoding := Some ''base64''\<rparr>))
       = Inr (no_keys\<lparr>content := Some big_content, encoding := Some ''base64''\<rparr>)"
    by (simp add: ok_response_def)
  have 6: "encoding (no_keys\<lparr>content := Some big_content, encoding := Some ''base64''\<rparr>)
       = Some ''base64''"
    by (simp add: no_keys_def)
  have 7: "b64decode_utf8 big_world
       (case content (no_keys\<lparr>content := Some big_content, encoding := Some ''base64''\<rparr>) of
          None \<Rightarrow> [] | Some c \<Rightarrow> c) = Decoded big_text"
    by (simp add: big_world_def scenario_def big_decoder_def no_keys_def)
  have 8: "max_code_length <
       length (code (initial_state evs0) @ file_header (path big_py) @ big_text)"
    by (simp add: max_code_length_def length_big_text)
  from append_past_cap_truncates_and_stops [OF 1 eligible_py(4) 3 4 5 6 7 8, of "[notes_md]"]
  show ?thesis
    by (simp add: initial_state_def manifest_line_big_py big_py_sel file_header_def
        max_code_length_def del: for_loop.simps)
qed

text \<open>
  C8. In every run of the loop the file counter ends at 100 at most; it counts the
  eligible entries reached whose text was decoded, the code text is made of the sections
  of those entries (cut at the cap), and the blobs requested are those of the eligible
  entries reached, in order. An entry is eligible when it is a blob whose path ends with
  one of the allowed extensions.
\<close>

theorem file_cap_and_allow_list:
  "(let reached = take (entries_reached w entries (initial_state evs)) entries;
        st = for_loop w entries (initial_state evs)
    in file_count st \<le> max_files
       \<and> file_count st =
           length (filter (\<lambda>item. included_text w item \<noteq> None) (filter eligible reached))
       \<and> code st = truncate_code (concat (map (file_section w) (filter eligible reached)))
       \<and> fetched_urls (trace st) = fetched_urls evs @ map url (filter eligible reached))"
proof -
  have "file_count (for_loop w entries (initial_state evs)) \<le> max_files"
    by (rule for_loop_file_count_le) simp
  moreover have "file_count (for_loop w entries (initial_state evs)) =
     length (filter (\<lambda>item. included_text w item \<noteq> None)
        (filter eligible (take (entries_reached w entries (initial_state evs)) entries)))"
    unfolding included_filter_eligible for_loop_file_count by simp
  moreover have "code (for_loop w entries (initial_state evs)) =
     truncate_code (concat (map (file_section w)
        (filter eligible (take (entries_reached w entries (initial_state evs)) entries))))"
    unfolding concat_sections_eligible
    using for_loop_code [of "initial_state evs" w entries] by simp
  moreover have "fetched_urls (trace (for_loop w entries (initial_state evs))) =
     fetched_urls evs @
     map url (filter eligible (take (entries_reached w entries (initial_state evs)) entries))"
    unfolding for_loop_fetched by simp
  ultimately show ?thesis by (simp add: Let_def)
qed

text \<open>
  A tree of a blob \<^verbatim>\<open>notes.md\<close>, a directory \<^verbatim>\<open>src\<close> and the blob \<^verbatim>\<open>main.py\<close>: the loop
  requests the blob of \<^verbatim>\<open>main.py\<close> only.
\<close>

theorem file_cap_and_allow_list_witness:
  "file_count (for_loop (test_world [notes_md, src_dir, main_py]) [notes_md, src_dir, main_py]
     (initial_state evs0)) \<le> 100
   \<and> fetched_urls (trace (for_loop (test_world [notes_md, src_dir, main_py])
        [notes_md, src_dir, main_py] (initial_state evs0))) =
       fetched_urls evs0 @ [''https://api.github.com/repos/testuser/testrepo/git/blobs/sha1'']"
proof -
  note t = file_cap_and_allow_list
    [of "test_world [notes_md, src_dir, main_py]" "[notes_md, src_dir, main_py]" evs0]
  then show ?thesis
    by (simp add: Let_def entries_reached_mixed max_files_def main_py_sel
        del: for_loop.simps entries_reached.simps)
qed

text \<open>
  C9. When the collection has returned a corpus and the environment variable is not set,
  the review client raises without a request to the completion service, and the endpoint
  answers 500 with the generic message, not with the message of the HTTP error.
\<close>

theorem missing_api_key_gives_generic_500:
  assumes "collect_code_from_github_repo w (github_url_repo review_request) = (Inr project_code, evs)"
    and "getenv_MISTRAL_API_KEY w = None"
  shows "get_mistral_review w (build_prompt review_request project_code) =
           (Inl (Exception ''Mistral AI API key not found in environment variables.''), [])
         \<and> fst (review w review_request) =
           HTTPException 500 ''An internal server error occurred. Please try again later.''
         \<and> completion_requests (snd (review w review_request)) = []"
proof -
  have g: "get_mistral_review w (build_prompt review_request project_code) =
           (Inl (Exception ''Mistral AI API key not found in environment variables.''), [])"
    using assms(2) by (simp add: get_mistral_review_def)
  have e: "completion_requests evs = []"
    using collect_no_post [of w "github_url_repo review_request"] assms(1) by simp
  from assms(1) g e show ?thesis
    by (simp add: review_def Let_def review_handlers_def not_contains_key_message
        completion_requests_def del: contains.simps)
qed

text \<open>The scenario of \<^verbatim>\<open>test_review_success\<close>, without the environment variable.\<close>

theorem missing_api_key_gives_generic_500_witness:
  "fst (review no_key_world test_request) =
     HTTPException 500 ''An internal server error occurred. Please try again later.''
   \<and> completion_requests (snd (review no_key_world test_request)) = []"
proof -
  have a: "collect_code_from_github_repo no_key_world (github_url_repo test_request) =
    (Inr (file_header ''main.py'' @ hello_text @ ''\<newline>All repository files:\<newline>main.py\<newline>''),
      evs0 @ [LOG INFO ''Processing file: main.py'',
              GET ''https://api.github.com/repos/testuser/testrepo/git/blobs/sha1''])"
    unfolding no_key_world_def using collect_success_world by (simp add: test_request_def)
  have b: "getenv_MISTRAL_API_KEY no_key_world = None"
    by (simp add: no_key_world_def scenario_def)
  from missing_api_key_gives_generic_500 [OF a b] show ?thesis by blast
qed


text \<open>
  C10. For an eligible entry whose blob is answered with the status 200, the encoding
  base64 and a content that is absent or empty, the loop appends the header of the file
  with an empty body (cut at the cap like any other text) and counts the file; the empty
  string decodes to the empty text, as in Python.
\<close>

theorem empty_content_blob_is_included:
  assumes "eligible item"
    and "http_get w (url item) = Inr blob_response"
    and "status_code blob_response = 200"
    and "json blob_response = Inr blob_data"
    and "encoding blob_data = Some ''base64''"
    and "content blob_data = None \<or> content blob_data = Some []"
    and "b64decode_utf8 w [] = Decoded []"
  shows "code (state_of (loop_body w item st)) =
           (let full = code st @ ''\<newline>\<newline>// File: '' @ path item @ ''\<newline>''
            in if max_code_length < length full
               then take max_code_length full @ code_truncation_marker else full)
         \<and> file_count (state_of (loop_body w item st)) = file_count st + 1"
proof -
  have "included_text w item = Some []"
    using assms by (auto simp add: included_text_def)
  then show ?thesis
    using loop_body_code [of w item st] loop_body_file_count [of w item st]
    by (simp add: truncate_code_def file_header_def Let_def)
qed

text \<open>
  The entry \<^verbatim>\<open>empty.py\<close>, whose blob has the encoding base64 and no content, from the initial
  state.
\<close>

theorem empty_content_blob_is_included_witness:
  "code (state_of (loop_body (test_world [empty_py]) empty_py (initial_state evs0))) =
     ''\<newline>\<newline>// File: empty.py\<newline>''
   \<and> file_count (state_of (loop_body (test_world [empty_py]) empty_py (initial_state evs0))) = 1"
proof -
  have 2: "http_get (test_world [empty_py]) (url empty_py) =
             Inr (ok_response (no_keys\<lparr>encoding := Some ''base64''\<rparr>))"
    by (simp add: test_world_def scenario_def empty_py_def test_blobs_def)
  have 3: "status_code (ok_response (no_keys\<lparr>encoding := Some ''base64''\<rparr>)) = 200"
    by (simp add: ok_response_def)
  have 4: "json (ok_response (no_keys\<lparr>encoding := Some ''base64''\<rparr>)) =
             Inr (no_keys\<lparr>encoding := Some ''base64''\<rparr>)"
    by (simp add: ok_response_def)
  have 5: "encoding (no_keys\<lparr>encoding := Some ''base64''\<rparr>) = Some ''base64''"
    by (simp add: no_keys_def)
  have 6: "content (no_keys\<lparr>encoding := Some ''base64''\<rparr>) = None \<or>
           content (no_keys\<lparr>encoding := Some ''base64''\<rparr>) = Some []"
    by (simp add: no_keys_def)
  have 7: "b64decode_utf8 (test_world [empty_py]) [] = Decoded []"
    by (simp add: test_world_def scenario_def test_decoder_def)
  from empty_content_blob_is_included [OF eligible_py(2) 2 3 4 5 6 7, of "initial_state evs0"]
  show ?thesis
    by (simp add: empty_py_def max_code_length_def)
qed

end
